theory Spec2Isabelle
  imports
    Complex_Main
    "HOL-Library.Multiset"
    "HOL-Library.Char_ord"
    "HOL-Library.List_Lexorder"
    "HOL-Library.Product_Lexorder"
    "HOL-Library.Option_ord"
    "HOL-Library.Sublist"
begin

section \<open>Numbers\<close>

text \<open>
  The analysis works on 64-bit floats.  A float is modelled by its exact value: a rational
  when it is finite, and the three special values otherwise.  Arithmetic on finite values
  is exact rational arithmetic; the binary rounding error of a float operation is not
  modelled.
\<close>

datatype f64 = Fin rat | NaN | PInf | NInf

text \<open>Integer columns divided with \<open>/\<close>: true division, with the IEEE results at a zero divisor.\<close>

definition int_truediv :: "int \<Rightarrow> int \<Rightarrow> f64" where
  "int_truediv a b =
     (if b = 0 then (if a = 0 then NaN else if 0 < a then PInf else NInf)
      else Fin (of_int a / of_int b))"

text \<open>Multiplication of a float by a positive finite constant.\<close>

definition f64_scale :: "f64 \<Rightarrow> rat \<Rightarrow> f64" where
  "f64_scale x c = (case x of Fin q \<Rightarrow> Fin (q * c) | NaN \<Rightarrow> NaN | PInf \<Rightarrow> PInf | NInf \<Rightarrow> NInf)"

text \<open>The comparison \<open>x < c\<close> against a finite constant: false on NaN.\<close>

definition f64_less :: "f64 \<Rightarrow> rat \<Rightarrow> bool" where
  "f64_less x c = (case x of Fin q \<Rightarrow> q < c | NaN \<Rightarrow> False | PInf \<Rightarrow> False | NInf \<Rightarrow> True)"

text \<open>Rounding to the nearest integer, ties to the even neighbour.\<close>

definition round_half_even :: "rat \<Rightarrow> int" where
  "round_half_even q =
     (let f = \<lfloor>q\<rfloor>; d = q - of_int f
      in if d < 1 / 2 then f else if 1 / 2 < d then f + 1
         else if even f then f else f + 1)"

text \<open>\<open>round(q, nd)\<close> on a finite value: nearest multiple of \<open>10 ^ -nd\<close>.\<close>

definition round_to :: "nat \<Rightarrow> rat \<Rightarrow> rat" where
  "round_to nd q = of_int (round_half_even (q * 10 ^ nd)) / 10 ^ nd"

text \<open>\<open>round(x, nd)\<close> on a float: NaN and the infinities are returned as they are.\<close>

definition f64_round :: "nat \<Rightarrow> f64 \<Rightarrow> f64" where
  "f64_round nd x = (case x of Fin q \<Rightarrow> Fin (round_to nd q) | NaN \<Rightarrow> NaN | PInf \<Rightarrow> PInf | NInf \<Rightarrow> NInf)"

section \<open>Errors\<close>

datatype error = ValueError string | TypeError string | IntegrityError string

section \<open>The store (database.py)\<close>

text \<open>The four mapped classes, one record per table row.\<close>

record project =
  p_id :: string

record subject =
  sub_id :: string
  sub_project_id :: string
  sub_condition :: string
  sub_age :: int
  sub_sex :: string
  sub_treatment :: "string option"
  sub_response :: "string option"

record sample =
  s_id :: string
  s_subject_id :: string
  s_sample_type :: string
  s_time_from_treatment_start :: int

record cell_count =
  cc_id :: nat
  cc_sample_id :: string
  cc_population :: string
  cc_count :: int

text \<open>The database: the rows of each table.\<close>

record db =
  projects :: "project list"
  subjects :: "subject list"
  samples :: "sample list"
  cell_counts :: "cell_count list"

text \<open>A row of the CSV file read by \<open>load_csv\<close>.\<close>

record csv_row =
  csv_project :: string
  csv_subject :: string
  csv_condition :: string
  csv_age :: int
  csv_sex :: string
  csv_treatment :: "string option"
  csv_response :: "string option"
  csv_sample :: string
  csv_sample_type :: string
  csv_time_from_treatment_start :: int
  csv_b_cell :: int
  csv_cd8_t_cell :: int
  csv_cd4_t_cell :: int
  csv_nk_cell :: int
  csv_monocyte :: int

definition CELL_POPULATIONS :: "string list" where
  "CELL_POPULATIONS = [''b_cell'', ''cd8_t_cell'', ''cd4_t_cell'', ''nk_cell'', ''monocyte'']"

text \<open>The value of the column named \<open>pop\<close> in a CSV row.\<close>

definition csv_column :: "string \<Rightarrow> csv_row \<Rightarrow> int" where
  "csv_column pop r =
     (if pop = ''b_cell'' then csv_b_cell r
      else if pop = ''cd8_t_cell'' then csv_cd8_t_cell r
      else if pop = ''cd4_t_cell'' then csv_cd4_t_cell r
      else if pop = ''nk_cell'' then csv_nk_cell r
      else csv_monocyte r)"

text \<open>\<open>init_db\<close>: \<open>create_all\<close> on a new file gives four empty tables.\<close>

definition init_db :: db where
  "init_db = \<lparr>projects = [], subjects = [], samples = [], cell_counts = []\<rparr>"

text \<open>
  One INSERT per pending object.  The three string ids are primary keys: inserting a key
  that the table holds fails.  \<open>cell_counts.id\<close> is an autoincrement integer key, assigned
  by the database as one more than the largest id of the table.
\<close>

definition insert_project :: "project \<Rightarrow> db \<Rightarrow> error + db" where
  "insert_project p d =
     (if p_id p \<in> set (map p_id (projects d))
      then Inl (IntegrityError ''UNIQUE constraint failed: projects.id'')
      else Inr (d\<lparr>projects := projects d @ [p]\<rparr>))"

definition insert_subject :: "subject \<Rightarrow> db \<Rightarrow> error + db" where
  "insert_subject s d =
     (if sub_id s \<in> set (map sub_id (subjects d))
      then Inl (IntegrityError ''UNIQUE constraint failed: subjects.id'')
      else Inr (d\<lparr>subjects := subjects d @ [s]\<rparr>))"

definition insert_sample :: "sample \<Rightarrow> db \<Rightarrow> error + db" where
  "insert_sample s d =
     (if s_id s \<in> set (map s_id (samples d))
      then Inl (IntegrityError ''UNIQUE constraint failed: samples.id'')
      else Inr (d\<lparr>samples := samples d @ [s]\<rparr>))"

definition next_id :: "cell_count list \<Rightarrow> nat" where
  "next_id ccs = Suc (fold max (map cc_id ccs) 0)"

definition insert_cell_count :: "string \<times> string \<times> int \<Rightarrow> db \<Rightarrow> error + db" where
  "insert_cell_count c d =
     Inr (d\<lparr>cell_counts := cell_counts d @
            [\<lparr>cc_id = next_id (cell_counts d), cc_sample_id = fst c,
              cc_population = fst (snd c), cc_count = snd (snd c)\<rparr>]\<rparr>)"

text \<open>The inserts of one table, in order; the first failure ends the flush.\<close>

fun insert_all :: "('a \<Rightarrow> db \<Rightarrow> error + db) \<Rightarrow> 'a list \<Rightarrow> db \<Rightarrow> error + db" where
  "insert_all ins [] d = Inr d"
| "insert_all ins (x # xs) d =
     (case ins x d of Inl e \<Rightarrow> Inl e | Inr d' \<Rightarrow> insert_all ins xs d')"

text \<open>
  The objects that \<open>load_csv\<close> adds to the session: one per row of the selected columns
  after \<open>unique()\<close>, which keeps one row of each distinct tuple of these columns (in an
  order the library does not fix; here the order of \<open>remdups\<close>).
\<close>

definition project_of :: "csv_row \<Rightarrow> project" where
  "project_of r = \<lparr>p_id = csv_project r\<rparr>"

definition subject_of :: "csv_row \<Rightarrow> subject" where
  "subject_of r =
     \<lparr>sub_id = csv_subject r, sub_project_id = csv_project r, sub_condition = csv_condition r,
      sub_age = csv_age r, sub_sex = csv_sex r, sub_treatment = csv_treatment r,
      sub_response = csv_response r\<rparr>"

definition sample_of :: "csv_row \<Rightarrow> sample" where
  "sample_of r =
     \<lparr>s_id = csv_sample r, s_subject_id = csv_subject r, s_sample_type = csv_sample_type r,
      s_time_from_treatment_start = csv_time_from_treatment_start r\<rparr>"

definition new_projects :: "csv_row list \<Rightarrow> project list" where
  "new_projects df = remdups (map project_of df)"

definition new_subjects :: "csv_row list \<Rightarrow> subject list" where
  "new_subjects df = remdups (map subject_of df)"

definition new_samples :: "csv_row list \<Rightarrow> sample list" where
  "new_samples df = remdups (map sample_of df)"

text \<open>
  \<open>unpivot\<close>: for each population column in turn, one (sample, population, count) row per
  CSV row.  No \<open>unique()\<close> is applied here.
\<close>

definition unpivot :: "csv_row list \<Rightarrow> (string \<times> string \<times> int) list" where
  "unpivot df = concat (map (\<lambda>pop. map (\<lambda>r. (csv_sample r, pop, csv_column pop r)) df) CELL_POPULATIONS)"

text \<open>\<open>session.commit()\<close>: the pending objects are inserted table by table in one transaction.\<close>

definition flush :: "csv_row list \<Rightarrow> db \<Rightarrow> error + db" where
  "flush df d =
     (case insert_all insert_project (new_projects df) d of Inl e \<Rightarrow> Inl e | Inr d1 \<Rightarrow>
       (case insert_all insert_subject (new_subjects df) d1 of Inl e \<Rightarrow> Inl e | Inr d2 \<Rightarrow>
         (case insert_all insert_sample (new_samples df) d2 of Inl e \<Rightarrow> Inl e | Inr d3 \<Rightarrow>
            insert_all insert_cell_count (unpivot df) d3)))"

text \<open>
  \<open>load_csv(engine, csv_path)\<close>, on the rows of the file and the database behind the
  engine.  It returns the outcome and the database afterwards: a failed commit is rolled
  back, so the database is the one before the call.
\<close>

definition load_csv :: "db \<Rightarrow> csv_row list \<Rightarrow> (error + unit) \<times> db" where
  "load_csv engine df =
     (case flush df engine of Inl e \<Rightarrow> (Inl e, engine) | Inr d' \<Rightarrow> (Inr (), d'))"

text \<open>
  The start of main.py: the file is created and loaded only when no database file exists.
  \<open>None\<close> is the missing file.
\<close>

definition main_init :: "db option \<Rightarrow> csv_row list \<Rightarrow> (error + unit) \<times> db option" where
  "main_init file df =
     (case file of
        None \<Rightarrow> (case load_csv init_db df of (r, d) \<Rightarrow> (r, Some d))
      | Some d \<Rightarrow> (Inr (), Some d))"

section \<open>Invariants of the store\<close>

text \<open>At most one row of \<open>cell_counts\<close> per (sample, population) pair.\<close>

definition cell_counts_unique :: "db \<Rightarrow> bool" where
  "cell_counts_unique d = distinct (map (\<lambda>c. (cc_sample_id c, cc_population c)) (cell_counts d))"

text \<open>The primary keys of the tables holding the metadata of a sample.\<close>

definition primary_keys :: "db \<Rightarrow> bool" where
  "primary_keys d = (distinct (map sub_id (subjects d)) \<and> distinct (map s_id (samples d)))"

text \<open>Every cell count has its sample, every sample its subject.\<close>

definition referential_integrity :: "db \<Rightarrow> bool" where
  "referential_integrity d =
     ((\<forall>cc\<in>set (cell_counts d). cc_sample_id cc \<in> set (map s_id (samples d)))
      \<and> (\<forall>s\<in>set (samples d). s_subject_id s \<in> set (map sub_id (subjects d))))"

section \<open>Frequency tables (analysis.py)\<close>

text \<open>
  The three-table join shared by the queries:
  \<open>FROM cell_counts cc JOIN samples s ON cc.sample_id = s.id JOIN subjects sub ON s.subject_id = sub.id\<close>.
\<close>

definition joined :: "db \<Rightarrow> (cell_count \<times> sample \<times> subject) list" where
  "joined d =
     concat (map (\<lambda>cc.
       concat (map (\<lambda>s.
         map (\<lambda>sub. (cc, s, sub)) (filter (\<lambda>sub. s_subject_id s = sub_id sub) (subjects d)))
         (filter (\<lambda>s. cc_sample_id cc = s_id s) (samples d))))
       (cell_counts d))"

text \<open>A row of the query of \<open>get_frequency_table\<close>.\<close>

record fq_row =
  fq_sample_id :: string
  fq_population :: string
  fq_count :: int
  fq_project_id :: string
  fq_condition :: string
  fq_treatment :: "string option"
  fq_sample_type :: string

definition frequency_query :: "db \<Rightarrow> fq_row list" where
  "frequency_query d =
     map (\<lambda>(cc, s, sub).
       \<lparr>fq_sample_id = cc_sample_id cc, fq_population = cc_population cc, fq_count = cc_count cc,
        fq_project_id = sub_project_id sub, fq_condition = sub_condition sub,
        fq_treatment = sub_treatment sub, fq_sample_type = s_sample_type s\<rparr>) (joined d)"

text \<open>\<open>df.group_by(key).agg(pl.col(val).sum())\<close>: one row per distinct key.\<close>

definition group_sum :: "('r \<Rightarrow> string) \<Rightarrow> ('r \<Rightarrow> int) \<Rightarrow> 'r list \<Rightarrow> (string \<times> int) list" where
  "group_sum key val df =
     map (\<lambda>k. (k, sum_list (map val (filter (\<lambda>r. key r = k) df)))) (remdups (map key df))"

text \<open>\<open>df.join(totals, on=key)\<close>: the inner join, each row paired with the totals of its key.\<close>

definition join_totals :: "('r \<Rightarrow> string) \<Rightarrow> 'r list \<Rightarrow> (string \<times> int) list \<Rightarrow> ('r \<times> int) list" where
  "join_totals key df totals =
     concat (map (\<lambda>r. map (\<lambda>t. (r, snd t)) (filter (\<lambda>t. fst t = key r) totals)) df)"

text \<open>\<open>(count / total_count * 100).round(2)\<close>\<close>

definition percentage_of :: "int \<Rightarrow> int \<Rightarrow> f64" where
  "percentage_of c t = f64_round 2 (f64_scale (int_truediv c t) 100)"

text \<open>A row of the frame returned by \<open>get_frequency_table\<close>.\<close>

record freq_row =
  ft_sample :: string
  ft_project_id :: string
  ft_condition :: string
  ft_treatment :: "string option"
  ft_sample_type :: string
  ft_total_count :: int
  ft_population :: string
  ft_count :: int
  ft_percentage :: f64

text \<open>
  \<open>get_frequency_table()\<close>.  \<open>sort("sample", "population")\<close> orders by the pair of keys;
  the order among rows with equal keys is not fixed by the library (here: kept).
\<close>

definition get_frequency_table :: "db \<Rightarrow> freq_row list" where
  "get_frequency_table d =
     (let df = frequency_query d;
          total_counts = group_sum fq_sample_id fq_count df
      in sort_key (\<lambda>r. (ft_sample r, ft_population r))
           (map (\<lambda>(r, total).
              \<lparr>ft_sample = fq_sample_id r, ft_project_id = fq_project_id r,
               ft_condition = fq_condition r, ft_treatment = fq_treatment r,
               ft_sample_type = fq_sample_type r, ft_total_count = total,
               ft_population = fq_population r, ft_count = fq_count r,
               ft_percentage = percentage_of (fq_count r) total\<rparr>)
              (join_totals fq_sample_id df total_counts)))"

text \<open>
  The frequency table as the specification words it, for comparison with
  \<open>get_frequency_table\<close>: one row for a cell count, with the metadata of its sample and of
  the subject of that sample, and the total of the counts stored for the sample.
\<close>

definition sample_for :: "db \<Rightarrow> cell_count \<Rightarrow> sample" where
  "sample_for d cc = the (find (\<lambda>s. s_id s = cc_sample_id cc) (samples d))"

definition subject_for :: "db \<Rightarrow> cell_count \<Rightarrow> subject" where
  "subject_for d cc = the (find (\<lambda>sub. sub_id sub = s_subject_id (sample_for d cc)) (subjects d))"

definition sample_total :: "db \<Rightarrow> string \<Rightarrow> int" where
  "sample_total d sid = sum_list (map cc_count (filter (\<lambda>c. cc_sample_id c = sid) (cell_counts d)))"

definition frequency_row :: "db \<Rightarrow> cell_count \<Rightarrow> freq_row" where
  "frequency_row d cc =
     \<lparr>ft_sample = cc_sample_id cc, ft_project_id = sub_project_id (subject_for d cc),
      ft_condition = sub_condition (subject_for d cc), ft_treatment = sub_treatment (subject_for d cc),
      ft_sample_type = s_sample_type (sample_for d cc),
      ft_total_count = sample_total d (cc_sample_id cc),
      ft_population = cc_population cc, ft_count = cc_count cc,
      ft_percentage = percentage_of (cc_count cc) (sample_total d (cc_sample_id cc))\<rparr>"

text \<open>A row of the query of \<open>get_responder_frequencies\<close>.\<close>

record rq_row =
  rq_sample_id :: string
  rq_population :: string
  rq_count :: int
  rq_response :: "string option"

definition responder_query :: "db \<Rightarrow> rq_row list" where
  "responder_query d =
     map (\<lambda>(cc, s, sub).
       \<lparr>rq_sample_id = cc_sample_id cc, rq_population = cc_population cc, rq_count = cc_count cc,
        rq_response = sub_response sub\<rparr>)
       (filter (\<lambda>(cc, s, sub). sub_condition sub = ''melanoma'' \<and> s_sample_type s = ''PBMC''
                  \<and> sub_treatment sub = Some ''miraclib'') (joined d))"

text \<open>A row of the frame returned by \<open>get_responder_frequencies\<close>.\<close>

record resp_row =
  rf_sample_id :: string
  rf_population :: string
  rf_percentage :: f64
  rf_response :: "string option"

definition get_responder_frequencies :: "db \<Rightarrow> resp_row list" where
  "get_responder_frequencies d =
     (let df = responder_query d;
          totals = group_sum rq_sample_id rq_count df
      in sort_key (\<lambda>r. (rf_sample_id r, rf_population r))
           (map (\<lambda>(r, total).
              \<lparr>rf_sample_id = rq_sample_id r, rf_population = rq_population r,
               rf_percentage = percentage_of (rq_count r) total, rf_response = rq_response r\<rparr>)
              (join_totals rq_sample_id df totals)))"

section \<open>Cohort summaries (analysis.py, main.py)\<close>















section \<open>Significance tests (analysis.py)\<close>

text \<open>A row of the frame returned by \<open>get_significance_tests\<close>.\<close>

record sig_row =
  sg_population :: string
  u_statistic :: f64
  p_value :: f64
  significant :: bool

text \<open>
  \<open>scipy.stats.mannwhitneyu(x, y, alternative="two-sided")\<close> is a function of the two lists
  only.  It is a parameter of the model: it returns the pair (statistic, p-value) or raises.
\<close>

type_synonym mwu_fn = "f64 list \<Rightarrow> f64 list \<Rightarrow> error + (f64 \<times> f64)"

text \<open>\<open>df["population"].unique().sort().to_list()\<close>\<close>

definition populations :: "resp_row list \<Rightarrow> string list" where
  "populations df = sort (remdups (map rf_population df))"

text \<open>\<open>pop_df = df.filter(pl.col("population") == pop)\<close>\<close>

definition pop_df :: "resp_row list \<Rightarrow> string \<Rightarrow> resp_row list" where
  "pop_df df pop = filter (\<lambda>r. rf_population r = pop) df"

text \<open>
  \<open>pop_df.filter(pl.col("response") == "yes")["percentage"].to_list()\<close>: a null response
  compares as null, and the filter drops the row.
\<close>

definition responders :: "resp_row list \<Rightarrow> string \<Rightarrow> f64 list" where
  "responders df pop = map rf_percentage (filter (\<lambda>r. rf_response r = Some ''yes'') (pop_df df pop))"

definition non_responders :: "resp_row list \<Rightarrow> string \<Rightarrow> f64 list" where
  "non_responders df pop = map rf_percentage (filter (\<lambda>r. rf_response r = Some ''no'') (pop_df df pop))"

text \<open>The dictionary appended for one population.\<close>

definition make_row :: "string \<Rightarrow> f64 \<times> f64 \<Rightarrow> sig_row" where
  "make_row pop sp =
     \<lparr>sg_population = pop,
      u_statistic = f64_round 2 (fst sp),
      p_value = f64_round 4 (snd sp),
      significant = f64_less (snd sp) (1 / 20)\<rparr>"

text \<open>The \<open>for pop in ...\<close> loop, with the list \<open>rows\<close> as accumulator; a raise ends it.\<close>

fun significance_loop :: "mwu_fn \<Rightarrow> resp_row list \<Rightarrow> string list \<Rightarrow> sig_row list \<Rightarrow> error + sig_row list" where
  "significance_loop mwu df [] rows = Inr rows"
| "significance_loop mwu df (pop # pops) rows =
     (case mwu (responders df pop) (non_responders df pop) of
        Inl e \<Rightarrow> Inl e
      | Inr sp \<Rightarrow> significance_loop mwu df pops (rows @ [make_row pop sp]))"

text \<open>
  \<open>get_significance_tests(df)\<close>.  The final cast of the column \<open>significant\<close> to Boolean
  changes no value.
\<close>

definition get_significance_tests :: "mwu_fn \<Rightarrow> resp_row list \<Rightarrow> error + sig_row list" where
  "get_significance_tests mwu df = significance_loop mwu df (populations df) []"

section \<open>The rank-sum test of the statistics library\<close>

text \<open>
  The theorems below hold for every function passed as \<open>mwu\<close>.  To evaluate
  \<open>get_significance_tests\<close> on concrete frames, this section gives the library's two-sided
  test with its exact method, which the library selects when the two samples share no value
  and one of them has at most 8 values.  It is not code of the repository.

  The statistic is that of the first sample: the number of pairs (x, y) with \<open>y < x\<close>, a
  tied pair counting one half.
\<close>

definition f64_lt :: "f64 \<Rightarrow> f64 \<Rightarrow> bool" where
  "f64_lt x y =
     (case (x, y) of
        (Fin a, Fin b) \<Rightarrow> a < b
      | (NInf, Fin b) \<Rightarrow> True
      | (NInf, PInf) \<Rightarrow> True
      | (Fin a, PInf) \<Rightarrow> True
      | _ \<Rightarrow> False)"

definition u_first :: "f64 list \<Rightarrow> f64 list \<Rightarrow> rat" where
  "u_first xs ys =
     sum_list (map (\<lambda>x. sum_list (map (\<lambda>y.
        if f64_lt y x then 1 else if y = x then 1 / 2 else 0) ys)) xs)"

text \<open>
  The number of orderings of \<open>m\<close> values of the first sample and \<open>n\<close> of the second whose
  statistic is at most \<open>k\<close> (the recurrence of Mann and Whitney on the largest value).
\<close>

fun mwu_count :: "nat \<Rightarrow> nat \<Rightarrow> int \<Rightarrow> nat" where
  "mwu_count 0 n k = (if k < 0 then 0 else 1)"
| "mwu_count (Suc m) 0 k = (if k < 0 then 0 else 1)"
| "mwu_count (Suc m) (Suc n) k =
     (if k < 0 then 0 else mwu_count m (Suc n) (k - int (Suc n)) + mwu_count (Suc m) n k)"

text \<open>
  Statistic and p-value: twice the probability, over all orderings, of a statistic at least
  \<open>max U1 U2\<close>, capped at 1.  A NaN in the input gives NaN for both.
\<close>

definition mwu_exact :: "f64 list \<Rightarrow> f64 list \<Rightarrow> f64 \<times> f64" where
  "mwu_exact xs ys =
     (if NaN \<in> set xs \<or> NaN \<in> set ys then (NaN, NaN)
      else let n1 = length xs; n2 = length ys;
               U1 = u_first xs ys;
               U2 = of_nat (n1 * n2) - U1;
               U = max U1 U2;
               sf = of_nat (mwu_count n1 n2 (int (n1 * n2) - \<lfloor>U\<rfloor>)) / of_nat ((n1 + n2) choose n1)
           in (Fin U1, Fin (min 1 (2 * sf))))"

text \<open>
  On an empty sample the library has two behaviours, by release: the input check raises,
  or the call returns NaN for both results (with a warning).
\<close>

definition mannwhitneyu :: mwu_fn where
  "mannwhitneyu xs ys =
     (if xs = [] \<or> ys = [] then Inl (ValueError ''`x` and `y` must be of nonzero size.'')
      else Inr (mwu_exact xs ys))"

definition mannwhitneyu_nan :: mwu_fn where
  "mannwhitneyu_nan xs ys =
     (if xs = [] \<or> ys = [] then Inr (NaN, NaN) else Inr (mwu_exact xs ys))"

section \<open>Example data\<close>

definition resp_rows :: "string \<Rightarrow> string option \<Rightarrow> rat list \<Rightarrow> resp_row list" where
  "resp_rows pop resp qs =
     map (\<lambda>q. \<lparr>rf_sample_id = ''s'', rf_population = pop, rf_percentage = Fin q, rf_response = resp\<rparr>) qs"

text \<open>The example of the specification: complete separation of three against three.\<close>

definition df_separated :: "resp_row list" where
  "df_separated =
     resp_rows ''b_cell'' (Some ''yes'') [10, 20, 30] @ resp_rows ''b_cell'' (Some ''no'') [40, 50, 60]"

text \<open>Three responders against 61 non-responders, no value shared.\<close>

definition boundary_yes :: "rat list" where
  "boundary_yes = [1 / 2, 3 / 5, 61 / 2]"

definition boundary_no :: "rat list" where
  "boundary_no = map of_nat [1..<62]"

definition df_boundary :: "resp_row list" where
  "df_boundary =
     resp_rows ''b_cell'' (Some ''yes'') boundary_yes @ resp_rows ''b_cell'' (Some ''no'') boundary_no"

text \<open>A population with responders only, and one with a row of null response.\<close>

definition df_one_group :: "resp_row list" where
  "df_one_group = resp_rows ''b_cell'' (Some ''yes'') [50, 40]"

definition df_with_null :: "resp_row list" where
  "df_with_null = resp_rows ''b_cell'' None [99] @ df_separated"

text \<open>Files: one row; a second sample of the same subject; another project; the first row twice;
  one subject with two ages.\<close>

definition csv_row1 :: csv_row where
  "csv_row1 =
     \<lparr>csv_project = ''prj1'', csv_subject = ''sbj1'', csv_condition = ''melanoma'', csv_age = 57,
      csv_sex = ''M'', csv_treatment = Some ''miraclib'', csv_response = Some ''yes'',
      csv_sample = ''sample1'', csv_sample_type = ''PBMC'', csv_time_from_treatment_start = 0,
      csv_b_cell = 10, csv_cd8_t_cell = 20, csv_cd4_t_cell = 30, csv_nk_cell = 25, csv_monocyte = 15\<rparr>"

definition csv_row2 :: csv_row where
  "csv_row2 = csv_row1\<lparr>csv_sample := ''sample2'', csv_b_cell := 30, csv_cd8_t_cell := 0\<rparr>"

definition csv_row3 :: csv_row where
  "csv_row3 = csv_row1\<lparr>csv_project := ''prj2'', csv_subject := ''sbj2'', csv_sample := ''sample3''\<rparr>"

definition csv_row4 :: csv_row where
  "csv_row4 = csv_row2\<lparr>csv_age := 58\<rparr>"

text \<open>The store after loading the first row, and after loading the first two rows.\<close>

definition db_one :: db where
  "db_one =
     \<lparr>projects = [\<lparr>p_id = ''prj1''\<rparr>],
      subjects = [subject_of csv_row1],
      samples = [sample_of csv_row1],
      cell_counts =
        [\<lparr>cc_id = 1, cc_sample_id = ''sample1'', cc_population = ''b_cell'', cc_count = 10\<rparr>,
         \<lparr>cc_id = 2, cc_sample_id = ''sample1'', cc_population = ''cd8_t_cell'', cc_count = 20\<rparr>,
         \<lparr>cc_id = 3, cc_sample_id = ''sample1'', cc_population = ''cd4_t_cell'', cc_count = 30\<rparr>,
         \<lparr>cc_id = 4, cc_sample_id = ''sample1'', cc_population = ''nk_cell'', cc_count = 25\<rparr>,
         \<lparr>cc_id = 5, cc_sample_id = ''sample1'', cc_population = ''monocyte'', cc_count = 15\<rparr>]\<rparr>"

definition db_two :: db where
  "db_two =
     \<lparr>projects = [\<lparr>p_id = ''prj1''\<rparr>],
      subjects = [subject_of csv_row1],
      samples = [sample_of csv_row1, sample_of csv_row2],
      cell_counts =
        [\<lparr>cc_id = 1, cc_sample_id = ''sample1'', cc_population = ''b_cell'', cc_count = 10\<rparr>,
         \<lparr>cc_id = 2, cc_sample_id = ''sample2'', cc_population = ''b_cell'', cc_count = 30\<rparr>,
         \<lparr>cc_id = 3, cc_sample_id = ''sample1'', cc_population = ''cd8_t_cell'', cc_count = 20\<rparr>,
         \<lparr>cc_id = 4, cc_sample_id = ''sample2'', cc_population = ''cd8_t_cell'', cc_count = 0\<rparr>,
         \<lparr>cc_id = 5, cc_sample_id = ''sample1'', cc_population = ''cd4_t_cell'', cc_count = 30\<rparr>,
         \<lparr>cc_id = 6, cc_sample_id = ''sample2'', cc_population = ''cd4_t_cell'', cc_count = 30\<rparr>,
         \<lparr>cc_id = 7, cc_sample_id = ''sample1'', cc_population = ''nk_cell'', cc_count = 25\<rparr>,
         \<lparr>cc_id = 8, cc_sample_id = ''sample2'', cc_population = ''nk_cell'', cc_count = 25\<rparr>,
         \<lparr>cc_id = 9, cc_sample_id = ''sample1'', cc_population = ''monocyte'', cc_count = 15\<rparr>,
         \<lparr>cc_id = 10, cc_sample_id = ''sample2'', cc_population = ''monocyte'', cc_count = 15\<rparr>]\<rparr>"

text \<open>A file with a responder sample of zero counts, a non-responder sample, and a second
  sample of the non-responder with zero counts.\<close>

definition csv_row0 :: csv_row where
  "csv_row0 = csv_row1\<lparr>csv_sample := ''sample0'', csv_b_cell := 0, csv_cd8_t_cell := 0,
                csv_cd4_t_cell := 0, csv_nk_cell := 0, csv_monocyte := 0\<rparr>"

definition csv_row5 :: csv_row where
  "csv_row5 = csv_row1\<lparr>csv_subject := ''sbj3'', csv_sample := ''sample5'', csv_response := Some ''no''\<rparr>"

definition csv_row6 :: csv_row where
  "csv_row6 = csv_row0\<lparr>csv_subject := ''sbj3'', csv_sample := ''sample6'', csv_response := Some ''no''\<rparr>"

definition db_zero :: db where
  "db_zero = snd (load_csv init_db [csv_row0, csv_row5, csv_row6])"

text \<open>Rows of the significance table on the example frames.\<close>

definition row_separated :: sig_row where
  "row_separated = \<lparr>sg_population = ''b_cell'', u_statistic = Fin 0, p_value = Fin (1 / 10), significant = False\<rparr>"

definition row_boundary :: sig_row where
  "row_boundary = \<lparr>sg_population = ''b_cell'', u_statistic = Fin 30, p_value = Fin (1 / 20), significant = True\<rparr>"

definition row_nan :: sig_row where
  "row_nan = \<lparr>sg_population = ''b_cell'', u_statistic = NaN, p_value = NaN, significant = False\<rparr>"

section \<open>Properties\<close>

lemma round_half_even_of_int: "round_half_even (of_int k) = k"
  by (simp add: round_half_even_def)

lemma round_half_even_cases:
  "round_half_even q = \<lfloor>q\<rfloor> \<or> (round_half_even q = \<lfloor>q\<rfloor> + 1 \<and> of_int \<lfloor>q\<rfloor> < q)"
  by (auto simp: round_half_even_def Let_def)

lemma round_half_even_le: "q \<le> of_int k \<Longrightarrow> round_half_even q \<le> k"
proof -
  assume h: "q \<le> of_int k"
  have fl: "\<lfloor>q\<rfloor> \<le> k" using h by (simp add: floor_le_iff)
  consider "round_half_even q = \<lfloor>q\<rfloor>" | "round_half_even q = \<lfloor>q\<rfloor> + 1" "of_int \<lfloor>q\<rfloor> < q"
    using round_half_even_cases by blast
  then show ?thesis
  proof cases
    case 1 then show ?thesis using fl by simp
  next
    case 2
    then have "of_int \<lfloor>q\<rfloor> < (of_int k :: rat)" using h by simp
    then have "\<lfloor>q\<rfloor> < k" by simp
    then show ?thesis using 2 by simp
  qed
qed

lemma round_half_even_ge: "of_int k \<le> q \<Longrightarrow> k \<le> round_half_even q"
proof -
  assume h: "of_int k \<le> q"
  have fl: "k \<le> \<lfloor>q\<rfloor>" using h by (simp add: le_floor_iff)
  show ?thesis using round_half_even_cases[of q] fl by auto
qed

lemma round_to_4_less: "round_to 4 q < 1 / 20 \<Longrightarrow> q < 1 / 20"
proof (rule ccontr)
  assume a: "round_to 4 q < 1 / 20" and n: "\<not> q < 1 / 20"
  have "of_int 500 \<le> q * 10 ^ 4" using n by simp
  then have "500 \<le> round_half_even (q * 10 ^ 4)" by (rule round_half_even_ge)
  then have "(500::rat) \<le> of_int (round_half_even (q * 10 ^ 4))" by linarith
  then have "1 / 20 \<le> round_to 4 q" by (simp add: round_to_def)
  then show False using a by simp
qed

lemma round_to_4_le: "q < 1 / 20 \<Longrightarrow> round_to 4 q \<le> 1 / 20"
proof -
  assume a: "q < 1 / 20"
  have "q * 10 ^ 4 \<le> of_int 500" using a by simp
  then have "round_half_even (q * 10 ^ 4) \<le> 500" by (rule round_half_even_le)
  then have "of_int (round_half_even (q * 10 ^ 4)) \<le> (500::rat)" by linarith
  then show ?thesis by (simp add: round_to_def)
qed

lemma flag_consistent:
  "(f64_less (f64_round 4 p) (1 / 20) \<longrightarrow> f64_less p (1 / 20))
   \<and> (f64_less p (1 / 20) \<and> \<not> f64_less (f64_round 4 p) (1 / 20) \<longrightarrow> f64_round 4 p = Fin (1 / 20))"
proof (cases p)
  case (Fin q)
  show ?thesis using round_to_4_less[of q] round_to_4_le[of q]
    by (auto simp: Fin f64_less_def f64_round_def)
qed (simp_all add: f64_less_def f64_round_def)

lemma significance_loop_rows:
  "significance_loop mwu df pops rows = Inr out \<Longrightarrow> r \<in> set out \<Longrightarrow>
     r \<in> set rows \<or> (\<exists>pop\<in>set pops. \<exists>sp. mwu (responders df pop) (non_responders df pop) = Inr sp \<and> r = make_row pop sp)"
proof (induction pops arbitrary: rows)
  case Nil
  then show ?case by simp
next
  case (Cons pop pops)
  show ?case
  proof (cases "mwu (responders df pop) (non_responders df pop)")
    case (Inl e)
    with Cons.prems show ?thesis by simp
  next
    case (Inr sp)
    with Cons.prems have "significance_loop mwu df pops (rows @ [make_row pop sp]) = Inr out" by simp
    from Cons.IH[OF this Cons.prems(2)]
    consider "r \<in> set rows" | "r = make_row pop sp"
      | "\<exists>pop'\<in>set pops. \<exists>sp'. mwu (responders df pop') (non_responders df pop') = Inr sp' \<and> r = make_row pop' sp'"
      by auto
    then show ?thesis
    proof cases
      case 1 then show ?thesis by simp
    next
      case 2 with Inr show ?thesis by (intro disjI2 bexI[of _ pop] exI[of _ sp]) simp_all
    next
      case 3 then show ?thesis by (intro disjI2) (simp add: Bex_def, blast)
    qed
  qed
qed

lemma significance_row:
  assumes "get_significance_tests mwu df = Inr out" and "r \<in> set out"
  shows "\<exists>sp. mwu (responders df (sg_population r)) (non_responders df (sg_population r)) = Inr sp
            \<and> r = make_row (sg_population r) sp"
proof -
  from significance_loop_rows[OF assms[unfolded get_significance_tests_def]]
  obtain pop sp where "mwu (responders df pop) (non_responders df pop) = Inr sp" "r = make_row pop sp"
    by auto
  moreover from this have "sg_population r = pop" by (simp add: make_row_def)
  ultimately show ?thesis by auto
qed

lemma significance_loop_Inl:
  "significance_loop mwu df pops rows = Inl e \<Longrightarrow>
     \<exists>pop\<in>set pops. mwu (responders df pop) (non_responders df pop) = Inl e"
proof (induction pops arbitrary: rows)
  case Nil
  then show ?case by simp
next
  case (Cons pop pops)
  then show ?case by (cases "mwu (responders df pop) (non_responders df pop)") auto
qed

lemma significance_loop_fails:
  "\<exists>pop\<in>set pops. \<exists>e. mwu (responders df pop) (non_responders df pop) = Inl e \<Longrightarrow>
     \<exists>e. significance_loop mwu df pops rows = Inl e"
proof (induction pops arbitrary: rows)
  case Nil
  then show ?case by simp
next
  case (Cons pop pops)
  show ?case
  proof (cases "mwu (responders df pop) (non_responders df pop)")
    case (Inl e)
    then show ?thesis by simp
  next
    case (Inr sp)
    with Cons.prems have "\<exists>pop\<in>set pops. \<exists>e. mwu (responders df pop) (non_responders df pop) = Inl e"
      by auto
    from Cons.IH[OF this] Inr show ?thesis by simp
  qed
qed

lemma significance_loop_succeeds:
  "\<forall>pop\<in>set pops. \<exists>sp. mwu (responders df pop) (non_responders df pop) = Inr sp \<Longrightarrow>
     significance_loop mwu df pops rows =
       Inr (rows @ map (\<lambda>pop. make_row pop (projr (mwu (responders df pop) (non_responders df pop)))) pops)"
proof (induction pops arbitrary: rows)
  case Nil
  then show ?case by simp
next
  case (Cons pop pops)
  from Cons.prems obtain sp where sp: "mwu (responders df pop) (non_responders df pop) = Inr sp"
    by auto
  from Cons.prems have "\<forall>pop\<in>set pops. \<exists>sp. mwu (responders df pop) (non_responders df pop) = Inr sp"
    by simp
  from Cons.IH[OF this] sp show ?case by simp
qed

lemma groups_as_one_filter:
  "responders df pop = map rf_percentage (filter (\<lambda>x. rf_population x = pop \<and> rf_response x = Some ''yes'') df)"
  "non_responders df pop = map rf_percentage (filter (\<lambda>x. rf_population x = pop \<and> rf_response x = Some ''no'') df)"
  by (simp_all add: responders_def non_responders_def pop_df_def conj_commute)

lemma groups_ignore_unlabelled:
  "responders (filter (\<lambda>x. rf_response x = Some ''yes'' \<or> rf_response x = Some ''no'') df) pop = responders df pop"
  "non_responders (filter (\<lambda>x. rf_response x = Some ''yes'' \<or> rf_response x = Some ''no'') df) pop = non_responders df pop"
  unfolding groups_as_one_filter
  by (simp_all add: conj_commute cong: conj_cong) 


lemma pop_df_resp_rows: "pop_df (resp_rows pop resp qs) pop' = (if pop = pop' then resp_rows pop resp qs else [])"
  by (induction qs) (auto simp: pop_df_def resp_rows_def)

lemma pop_df_append: "pop_df (xs @ ys) pop = pop_df xs pop @ pop_df ys pop"
  by (simp add: pop_df_def)

lemma filter_response_resp_rows:
  "filter (\<lambda>r. rf_response r = resp') (resp_rows pop resp qs) = (if resp = resp' then resp_rows pop resp qs else [])"
  by (induction qs) (auto simp: resp_rows_def)

lemma percentage_resp_rows: "map rf_percentage (resp_rows pop resp qs) = map Fin qs"
  by (simp add: resp_rows_def comp_def)

lemma population_resp_rows: "map rf_population (resp_rows pop resp qs) = replicate (length qs) pop"
  by (induction qs) (auto simp: resp_rows_def)

lemma remdups_replicate_aux: "remdups (replicate m x) = (if m = 0 then [] else [x])"
  by (induction m) auto

lemma remdups_replicate_append: "remdups (replicate n x @ replicate m x) = (if n = 0 \<and> m = 0 then [] else [x])"
  by (induction n) (auto simp: remdups_replicate_aux)

lemma length_boundary: "length boundary_yes = 3" "length boundary_no = 61"
  by (simp_all add: boundary_yes_def boundary_no_def)

lemma populations_boundary: "populations df_boundary = [''b_cell'']"
  by (simp add: populations_def df_boundary_def population_resp_rows remdups_replicate_append length_boundary)

lemma responders_boundary: "responders df_boundary ''b_cell'' = map Fin boundary_yes"
  by (simp add: responders_def df_boundary_def pop_df_append pop_df_resp_rows filter_response_resp_rows percentage_resp_rows)

lemma non_responders_boundary: "non_responders df_boundary ''b_cell'' = map Fin boundary_no"
  by (simp add: non_responders_def df_boundary_def pop_df_append pop_df_resp_rows filter_response_resp_rows percentage_resp_rows)

lemma f64_lt_Fin: "f64_lt (Fin a) (Fin b) = (a < b)"
  by (simp add: f64_lt_def)

lemma inner_Fin: "sum_list (map (\<lambda>y. if f64_lt y (Fin a) then 1 else if y = Fin a then 1 / 2 else (0::rat)) (map Fin bs))
   = sum_list (map (\<lambda>b. if b < a then 1 else if b = a then 1 / 2 else 0) bs)"
  by (induction bs) (simp_all add: f64_lt_Fin)

lemma u_first_Fin: "u_first (map Fin as) (map Fin bs)
   = sum_list (map (\<lambda>a. sum_list (map (\<lambda>b. if b < a then 1 else if b = a then 1 / 2 else 0) bs)) as)"
  unfolding u_first_def by (induction as) (simp_all add: inner_Fin del: map_map)

lemma NaN_notin_Fin: "NaN \<notin> set (map Fin qs)"
  by auto

lemma mwu_exact_Fin:
  "mwu_exact (map Fin as) (map Fin bs) =
     (Fin (u_first (map Fin as) (map Fin bs)),
      Fin (min 1 (2 * (of_nat (mwu_count (length as) (length bs)
              (int (length as * length bs)
               - \<lfloor>max (u_first (map Fin as) (map Fin bs))
                      (of_nat (length as * length bs) - u_first (map Fin as) (map Fin bs))\<rfloor>))
            / of_nat ((length as + length bs) choose length as)))))"
  unfolding mwu_exact_def Let_def using NaN_notin_Fin by simp

lemma count_below_between:
  fixes a :: rat
  assumes "of_nat t < a" and "a < of_nat (Suc t)"
  shows "sum_list (map (\<lambda>b. if b < a then 1 else if b = a then 1 / 2 else (0::rat)) (map of_nat [1..<m]))
           = of_nat (min (m - 1) t)"
proof (induction m)
  case 0
  show ?case by simp
next
  case (Suc m)
  show ?case
  proof (cases "m = 0")
    case True
    then show ?thesis by simp
  next
    case False
    then have up: "[1..<Suc m] = [1..<m] @ [m]" by simp
    show ?thesis
    proof (cases "m \<le> t")
      case True
      then have "rat_of_nat m \<le> of_nat t" by (simp only: of_nat_le_iff)
      then have "rat_of_nat m < a" using assms(1) by linarith
      moreover have "min (Suc m - 1) t = Suc (min (m - 1) t)" using True False by simp
      ultimately show ?thesis using Suc.IH unfolding up by simp
    next
      case F2: False
      then have "Suc t \<le> m" by simp
      then have "rat_of_nat (Suc t) \<le> of_nat m" by (simp only: of_nat_le_iff)
      then have "a < rat_of_nat m" using assms(2) by linarith
      moreover have "min (Suc m - 1) t = min (m - 1) t" using F2 False by simp
      ultimately show ?thesis using Suc.IH unfolding up by simp
    qed
  qed
qed

lemma u_first_boundary: "u_first (map Fin boundary_yes) (map Fin boundary_no) = 30"
proof -
  have a: "sum_list (map (\<lambda>b. if b < 1 / 2 then 1 else if b = 1 / 2 then 1 / 2 else (0::rat)) boundary_no) = 0"
    unfolding boundary_no_def by (subst count_below_between[of 0]) simp_all
  have b: "sum_list (map (\<lambda>b. if b < 3 / 5 then 1 else if b = 3 / 5 then 1 / 2 else (0::rat)) boundary_no) = 0"
    unfolding boundary_no_def by (subst count_below_between[of 0]) simp_all
  have c: "sum_list (map (\<lambda>b. if b < 61 / 2 then 1 else if b = 61 / 2 then 1 / 2 else (0::rat)) boundary_no) = 30"
    unfolding boundary_no_def by (subst count_below_between[of 30]) simp_all
  show ?thesis
    unfolding u_first_Fin boundary_yes_def by (simp only: list.map sum_list.Cons sum_list.Nil a b c)
qed

lemma count_boundary: "mwu_count 3 61 30 = 1041"
  by code_simp

lemma choose_boundary: "(64::nat) choose 3 = 41664"
proof -
  have "3 * ((64::nat) choose 3) = 64 * (63 choose 2)"
    using times_binomial_minus1_eq[of 3 64] by simp
  also have "(63::nat) choose 2 = 1953"
    by (simp add: choose_two)
  finally show ?thesis by simp
qed

lemma mwu_boundary: "mwu_exact (map Fin boundary_yes) (map Fin boundary_no) = (Fin 30, Fin (347 / 6944))"
proof -
  have fl: "\<lfloor>153::rat\<rfloor> = 153" 
    using floor_of_int[of 153, where ?'a = rat] by simp
  have "mwu_exact (map Fin boundary_yes) (map Fin boundary_no) =
          (Fin 30, Fin (min 1 (2 * (of_nat (mwu_count 3 61 (int (3 * 61) - \<lfloor>max 30 (of_nat (3 * 61) - 30 :: rat)\<rfloor>))
              / of_nat ((3 + 61) choose 3)))))"
    by (simp only: mwu_exact_Fin u_first_boundary length_boundary)
  also have "max 30 (of_nat (3 * 61) - 30 :: rat) = 153" by simp
  also have "int (3 * 61) - \<lfloor>153::rat\<rfloor> = 30" by (simp add: fl)
  also have "(3 + 61 :: nat) = 64" by simp
  finally show ?thesis by (simp add: count_boundary choose_boundary)
qed

lemma round_half_even_eqI:
  "of_int k - 1 / 2 < q \<Longrightarrow> q < of_int k + 1 / 2 \<Longrightarrow> round_half_even q = k"
proof -
  assume a: "of_int k - 1 / 2 < q" and b: "q < of_int k + 1 / 2"
  have "\<lfloor>q\<rfloor> = k \<or> \<lfloor>q\<rfloor> = k - 1" using a b by linarith
  then show ?thesis
  proof
    assume f: "\<lfloor>q\<rfloor> = k"
    then have "q - of_int \<lfloor>q\<rfloor> < 1 / 2" using b by simp
    then show ?thesis by (simp add: round_half_even_def Let_def f)
  next
    assume f: "\<lfloor>q\<rfloor> = k - 1"
    then have "1 / 2 < q - of_int \<lfloor>q\<rfloor>" using a by simp
    then show ?thesis by (simp add: round_half_even_def Let_def f)
  qed
qed

lemma round_boundary: "round_to 4 (347 / 6944) = 1 / 20"
proof -
  have "round_half_even (347 / 6944 * 10 ^ 4) = 500"
    by (rule round_half_even_eqI) simp_all
  then show ?thesis by (simp add: round_to_def)
qed

lemma round_to_of_int: "round_to nd (of_int k) = of_int k"
proof -
  have "(of_int k :: rat) * 10 ^ nd = of_int (k * 10 ^ nd)" by simp
  then have "round_half_even (of_int k * 10 ^ nd) = k * 10 ^ nd"
    using round_half_even_of_int by metis
  then show ?thesis by (simp add: round_to_def)
qed

lemma tests_boundary:
  "get_significance_tests mannwhitneyu df_boundary =
     Inr [\<lparr>sg_population = ''b_cell'', u_statistic = Fin 30, p_value = Fin (1 / 20), significant = True\<rparr>]"
proof -
  have ne: "boundary_yes \<noteq> []" "boundary_no \<noteq> []"
    by (simp_all add: boundary_yes_def boundary_no_def)
  have "mannwhitneyu (responders df_boundary ''b_cell'') (non_responders df_boundary ''b_cell'')
          = Inr (Fin 30, Fin (347 / 6944))"
    by (simp add: responders_boundary non_responders_boundary mannwhitneyu_def ne mwu_boundary)
  moreover have "make_row ''b_cell'' (Fin 30, Fin (347 / 6944))
      = \<lparr>sg_population = ''b_cell'', u_statistic = Fin 30, p_value = Fin (1 / 20), significant = True\<rparr>"
    by (simp add: make_row_def f64_round_def f64_less_def round_boundary round_to_of_int[of 2 30, simplified])
  ultimately show ?thesis
    by (simp add: get_significance_tests_def populations_boundary)
qed

lemma populations_separated: "populations df_separated = [''b_cell'']"
  by (simp add: populations_def df_separated_def population_resp_rows remdups_replicate_append)

lemma groups_separated:
  "responders df_separated ''b_cell'' = map Fin [10, 20, 30]"
  "non_responders df_separated ''b_cell'' = map Fin [40, 50, 60]"
  by (simp_all add: responders_def non_responders_def df_separated_def pop_df_append pop_df_resp_rows
      filter_response_resp_rows percentage_resp_rows del: list.map)

lemma choose_separated: "(6::nat) choose 3 = 20"
proof -
  have "3 * ((6::nat) choose 3) = 6 * (5 choose 2)"
    using times_binomial_minus1_eq[of 3 6] by simp
  also have "(5::nat) choose 2 = 10"
    by (simp add: choose_two)
  finally show ?thesis by simp
qed

lemma count_separated: "mwu_count 3 3 0 = 1"
  by code_simp

lemma mwu_separated: "mwu_exact (map Fin [10, 20, 30]) (map Fin [40, 50, 60]) = (Fin 0, Fin (1 / 10))"
proof -
  have u: "u_first (map Fin [10, 20, 30]) (map Fin [40, 50, 60]) = 0"
    unfolding u_first_Fin by simp
  have len: "length [10, 20, 30 :: rat] = 3" "length [40, 50, 60 :: rat] = 3"
    by simp_all
  have fl: "\<lfloor>9::rat\<rfloor> = 9"
    using floor_of_int[of 9, where ?'a = rat] by simp
  have "mwu_exact (map Fin [10, 20, 30]) (map Fin [40, 50, 60]) =
          (Fin 0, Fin (min 1 (2 * (of_nat (mwu_count 3 3 (int (3 * 3) - \<lfloor>max 0 (of_nat (3 * 3) - 0 :: rat)\<rfloor>))
              / of_nat ((3 + 3) choose 3)))))"
    by (simp only: mwu_exact_Fin u len)
  also have "max 0 (of_nat (3 * 3) - 0 :: rat) = 9" by simp
  also have "int (3 * 3) - \<lfloor>9::rat\<rfloor> = 0" by (simp add: fl)
  also have "(3 + 3 :: nat) = 6" by simp
  finally have "mwu_exact (map Fin [10, 20, 30]) (map Fin [40, 50, 60]) =
          (Fin 0, Fin (min 1 (2 * (of_nat (mwu_count 3 3 0) / of_nat ((6::nat) choose 3)))))" .
  then show ?thesis by (simp only: count_separated choose_separated) simp
qed

lemma round_tenth: "round_to 4 (1 / 10) = 1 / 10"
proof -
  have "round_half_even (1 / 10 * 10 ^ 4) = 1000"
    by (rule round_half_even_eqI) simp_all
  then show ?thesis by (simp add: round_to_def)
qed

lemma make_row_separated: "make_row ''b_cell'' (Fin 0, Fin (1 / 10)) = row_separated"
  by (simp add: make_row_def row_separated_def f64_round_def f64_less_def round_tenth
      round_to_of_int[of 2 0, simplified])

lemma mannwhitneyu_separated:
  "mannwhitneyu (responders df_separated ''b_cell'') (non_responders df_separated ''b_cell'')
     = Inr (Fin 0, Fin (1 / 10))"
  unfolding groups_separated mannwhitneyu_def mwu_separated by simp

lemma tests_separated: "get_significance_tests mannwhitneyu df_separated = Inr [row_separated]"
  by (simp add: get_significance_tests_def populations_separated mannwhitneyu_separated make_row_separated)

lemma populations_one_group: "populations df_one_group = [''b_cell'']"
  by (simp add: populations_def df_one_group_def population_resp_rows remdups_replicate_aux)

lemma groups_one_group:
  "responders df_one_group ''b_cell'' = map Fin [50, 40]"
  "non_responders df_one_group ''b_cell'' = []"
  by (simp_all add: responders_def non_responders_def df_one_group_def pop_df_resp_rows
      filter_response_resp_rows percentage_resp_rows del: list.map)

lemma tests_one_group_raise:
  "get_significance_tests mannwhitneyu df_one_group = Inl (ValueError ''`x` and `y` must be of nonzero size.'')"
  by (simp add: get_significance_tests_def populations_one_group groups_one_group mannwhitneyu_def)

lemma make_row_nan: "make_row ''b_cell'' (NaN, NaN) = row_nan"
  by (simp add: make_row_def row_nan_def f64_round_def f64_less_def)

lemma tests_one_group_nan:
  "get_significance_tests mannwhitneyu_nan df_one_group = Inr [row_nan]"
  by (simp add: get_significance_tests_def populations_one_group groups_one_group mannwhitneyu_nan_def make_row_nan)

lemma populations_with_null: "populations df_with_null = [''b_cell'']"
proof -
  have "map rf_population df_with_null = replicate 7 ''b_cell''"
    by (simp add: df_with_null_def df_separated_def population_resp_rows eval_nat_numeral)
  then show ?thesis by (simp add: populations_def remdups_replicate_aux)
qed

lemma groups_with_null:
  "responders df_with_null ''b_cell'' = map Fin [10, 20, 30]"
  "non_responders df_with_null ''b_cell'' = map Fin [40, 50, 60]"
  by (simp_all add: responders_def non_responders_def df_with_null_def df_separated_def pop_df_append pop_df_resp_rows
      filter_response_resp_rows percentage_resp_rows del: list.map)

lemma tests_with_null: "get_significance_tests mannwhitneyu df_with_null = Inr [row_separated]"
  using mannwhitneyu_separated
  by (simp add: get_significance_tests_def populations_with_null groups_with_null groups_separated make_row_separated)

lemma insert_project_step:
  "insert_all insert_project (p # ps) d =
     (if p_id p \<in> set (map p_id (projects d))
      then Inl (IntegrityError ''UNIQUE constraint failed: projects.id'')
      else insert_all insert_project ps (d\<lparr>projects := projects d @ [p]\<rparr>))"
  by (simp add: insert_project_def)

lemma insert_subject_step:
  "insert_all insert_subject (p # ps) d =
     (if sub_id p \<in> set (map sub_id (subjects d))
      then Inl (IntegrityError ''UNIQUE constraint failed: subjects.id'')
      else insert_all insert_subject ps (d\<lparr>subjects := subjects d @ [p]\<rparr>))"
  by (simp add: insert_subject_def)

lemma insert_sample_step:
  "insert_all insert_sample (p # ps) d =
     (if s_id p \<in> set (map s_id (samples d))
      then Inl (IntegrityError ''UNIQUE constraint failed: samples.id'')
      else insert_all insert_sample ps (d\<lparr>samples := samples d @ [p]\<rparr>))"
  by (simp add: insert_sample_def)

lemma insert_cell_count_step:
  "insert_all insert_cell_count (x # xs) d =
     insert_all insert_cell_count xs
       (d\<lparr>cell_counts := cell_counts d @
            [\<lparr>cc_id = next_id (cell_counts d), cc_sample_id = fst x,
              cc_population = fst (snd x), cc_count = snd (snd x)\<rparr>]\<rparr>)"
  by (simp add: insert_cell_count_def)

lemma insert_all_project_Inr:
  "insert_all insert_project ps d = Inr d' \<Longrightarrow>
     d' = d\<lparr>projects := projects d @ ps\<rparr> \<and> distinct (map p_id ps)
     \<and> set (map p_id ps) \<inter> set (map p_id (projects d)) = {}"
proof (induction ps arbitrary: d)
  case Nil
  then show ?case by simp
next
  case (Cons p ps)
  from Cons.prems have fresh: "p_id p \<notin> set (map p_id (projects d))"
    by (auto simp: insert_project_step split: if_splits simp del: insert_all.simps(2))
  with Cons.prems have "insert_all insert_project ps (d\<lparr>projects := projects d @ [p]\<rparr>) = Inr d'"
    by (simp add: insert_project_step del: insert_all.simps(2))
  from Cons.IH[OF this] fresh show ?case by auto
qed

lemma insert_all_subject_Inr:
  "insert_all insert_subject ps d = Inr d' \<Longrightarrow>
     d' = d\<lparr>subjects := subjects d @ ps\<rparr> \<and> distinct (map sub_id ps)
     \<and> set (map sub_id ps) \<inter> set (map sub_id (subjects d)) = {}"
proof (induction ps arbitrary: d)
  case Nil
  then show ?case by simp
next
  case (Cons p ps)
  from Cons.prems have fresh: "sub_id p \<notin> set (map sub_id (subjects d))"
    by (auto simp: insert_subject_step split: if_splits simp del: insert_all.simps(2))
  with Cons.prems have "insert_all insert_subject ps (d\<lparr>subjects := subjects d @ [p]\<rparr>) = Inr d'"
    by (simp add: insert_subject_step del: insert_all.simps(2))
  from Cons.IH[OF this] fresh show ?case by auto
qed

lemma insert_all_sample_Inr:
  "insert_all insert_sample ps d = Inr d' \<Longrightarrow>
     d' = d\<lparr>samples := samples d @ ps\<rparr> \<and> distinct (map s_id ps)
     \<and> set (map s_id ps) \<inter> set (map s_id (samples d)) = {}"
proof (induction ps arbitrary: d)
  case Nil
  then show ?case by simp
next
  case (Cons p ps)
  from Cons.prems have fresh: "s_id p \<notin> set (map s_id (samples d))"
    by (auto simp: insert_sample_step split: if_splits simp del: insert_all.simps(2))
  with Cons.prems have "insert_all insert_sample ps (d\<lparr>samples := samples d @ [p]\<rparr>) = Inr d'"
    by (simp add: insert_sample_step del: insert_all.simps(2))
  from Cons.IH[OF this] fresh show ?case by auto
qed

lemma insert_all_project_ok:
  "distinct (map p_id ps) \<Longrightarrow> set (map p_id ps) \<inter> set (map p_id (projects d)) = {} \<Longrightarrow>
     insert_all insert_project ps d = Inr (d\<lparr>projects := projects d @ ps\<rparr>)"
proof (induction ps arbitrary: d)
  case Nil
  then show ?case by simp
next
  case (Cons p ps)
  have "insert_all insert_project ps (d\<lparr>projects := projects d @ [p]\<rparr>)
          = Inr (d\<lparr>projects := projects d @ [p]\<rparr>\<lparr>projects := projects (d\<lparr>projects := projects d @ [p]\<rparr>) @ ps\<rparr>)"
    using Cons.prems by (intro Cons.IH) auto
  then show ?case using Cons.prems by (simp add: insert_project_step del: insert_all.simps(2))
qed

lemma insert_all_subject_ok:
  "distinct (map sub_id ps) \<Longrightarrow> set (map sub_id ps) \<inter> set (map sub_id (subjects d)) = {} \<Longrightarrow>
     insert_all insert_subject ps d = Inr (d\<lparr>subjects := subjects d @ ps\<rparr>)"
proof (induction ps arbitrary: d)
  case Nil
  then show ?case by simp
next
  case (Cons p ps)
  have "insert_all insert_subject ps (d\<lparr>subjects := subjects d @ [p]\<rparr>)
          = Inr (d\<lparr>subjects := subjects d @ [p]\<rparr>\<lparr>subjects := subjects (d\<lparr>subjects := subjects d @ [p]\<rparr>) @ ps\<rparr>)"
    using Cons.prems by (intro Cons.IH) auto
  then show ?case using Cons.prems by (simp add: insert_subject_step del: insert_all.simps(2))
qed

lemma insert_all_sample_ok:
  "distinct (map s_id ps) \<Longrightarrow> set (map s_id ps) \<inter> set (map s_id (samples d)) = {} \<Longrightarrow>
     insert_all insert_sample ps d = Inr (d\<lparr>samples := samples d @ ps\<rparr>)"
proof (induction ps arbitrary: d)
  case Nil
  then show ?case by simp
next
  case (Cons p ps)
  have "insert_all insert_sample ps (d\<lparr>samples := samples d @ [p]\<rparr>)
          = Inr (d\<lparr>samples := samples d @ [p]\<rparr>\<lparr>samples := samples (d\<lparr>samples := samples d @ [p]\<rparr>) @ ps\<rparr>)"
    using Cons.prems by (intro Cons.IH) auto
  then show ?case using Cons.prems by (simp add: insert_sample_step del: insert_all.simps(2))
qed

lemma insert_all_cell_count:
  "\<exists>ccs. insert_all insert_cell_count xs d = Inr (d\<lparr>cell_counts := cell_counts d @ ccs\<rparr>)
         \<and> map (\<lambda>c. (cc_sample_id c, cc_population c, cc_count c)) ccs = xs"
proof (induction xs arbitrary: d)
  case Nil
  show ?case by simp
next
  case (Cons x xs)
  define c where "c = \<lparr>cc_id = next_id (cell_counts d), cc_sample_id = fst x,
              cc_population = fst (snd x), cc_count = snd (snd x)\<rparr>"
  define d1 where "d1 = d\<lparr>cell_counts := cell_counts d @ [c]\<rparr>"
  from Cons.IH[of d1] obtain ccs where
    ccs: "insert_all insert_cell_count xs d1 = Inr (d1\<lparr>cell_counts := cell_counts d1 @ ccs\<rparr>)"
         "map (\<lambda>c. (cc_sample_id c, cc_population c, cc_count c)) ccs = xs"
    by blast
  have "insert_all insert_cell_count (x # xs) d = Inr (d\<lparr>cell_counts := cell_counts d @ (c # ccs)\<rparr>)"
    using ccs(1) by (simp add: insert_cell_count_step c_def d1_def del: insert_all.simps(2))
  moreover have "map (\<lambda>c. (cc_sample_id c, cc_population c, cc_count c)) (c # ccs) = x # xs"
    using ccs(2) by (simp add: c_def)
  ultimately show ?case by (intro exI[of _ "c # ccs"] conjI)
qed

lemma insert_all_Inl_project: "insert_all insert_project ps d = Inl e \<Longrightarrow> \<exists>msg. e = IntegrityError msg"
  by (induction ps arbitrary: d) (auto simp: insert_project_step split: if_splits simp del: insert_all.simps(2))

lemma insert_all_Inl_subject: "insert_all insert_subject ps d = Inl e \<Longrightarrow> \<exists>msg. e = IntegrityError msg"
  by (induction ps arbitrary: d) (auto simp: insert_subject_step split: if_splits simp del: insert_all.simps(2))

lemma insert_all_Inl_sample: "insert_all insert_sample ps d = Inl e \<Longrightarrow> \<exists>msg. e = IntegrityError msg"
  by (induction ps arbitrary: d) (auto simp: insert_sample_step split: if_splits simp del: insert_all.simps(2))

lemma insert_all_Inl_cell_count: "insert_all insert_cell_count xs d \<noteq> Inl e"
  using insert_all_cell_count[of xs d] by auto

lemma flush_Inl: "flush df d = Inl e \<Longrightarrow> \<exists>msg. e = IntegrityError msg"
  unfolding flush_def
  by (auto split: sum.splits dest: insert_all_Inl_project insert_all_Inl_subject insert_all_Inl_sample
      simp: insert_all_Inl_cell_count)

lemma flush_Inr:
  assumes "flush df d = Inr d'"
  shows "projects d' = projects d @ new_projects df"
    and "subjects d' = subjects d @ new_subjects df"
    and "samples d' = samples d @ new_samples df"
    and "\<exists>ccs. cell_counts d' = cell_counts d @ ccs
           \<and> map (\<lambda>c. (cc_sample_id c, cc_population c, cc_count c)) ccs = unpivot df"
    and "distinct (map p_id (new_projects df))"
    and "set (map p_id (new_projects df)) \<inter> set (map p_id (projects d)) = {}"
    and "distinct (map sub_id (new_subjects df))"
    and "set (map sub_id (new_subjects df)) \<inter> set (map sub_id (subjects d)) = {}"
    and "distinct (map s_id (new_samples df))"
    and "set (map s_id (new_samples df)) \<inter> set (map s_id (samples d)) = {}"
proof -
  from assms obtain d1 d2 d3 where
    s1: "insert_all insert_project (new_projects df) d = Inr d1" and
    s2: "insert_all insert_subject (new_subjects df) d1 = Inr d2" and
    s3: "insert_all insert_sample (new_samples df) d2 = Inr d3" and
    s4: "insert_all insert_cell_count (unpivot df) d3 = Inr d'"
    unfolding flush_def by (auto split: sum.splits)
  note p = insert_all_project_Inr[OF s1] and q = insert_all_subject_Inr[OF s2]
    and r = insert_all_sample_Inr[OF s3]
  from insert_all_cell_count[of "unpivot df" d3] s4 obtain ccs where
    c: "d' = d3\<lparr>cell_counts := cell_counts d3 @ ccs\<rparr>"
       "map (\<lambda>c. (cc_sample_id c, cc_population c, cc_count c)) ccs = unpivot df"
    by auto
  show "projects d' = projects d @ new_projects df" using p q r c by simp
  show "subjects d' = subjects d @ new_subjects df" using p q r c by simp
  show "samples d' = samples d @ new_samples df" using p q r c by simp
  show "\<exists>ccs. cell_counts d' = cell_counts d @ ccs
           \<and> map (\<lambda>c. (cc_sample_id c, cc_population c, cc_count c)) ccs = unpivot df"
    using p q r c by simp
  show "distinct (map p_id (new_projects df))" using p by simp
  show "set (map p_id (new_projects df)) \<inter> set (map p_id (projects d)) = {}" using p by simp
  show "distinct (map sub_id (new_subjects df))" using q by simp
  show "set (map sub_id (new_subjects df)) \<inter> set (map sub_id (subjects d)) = {}" using p q by simp
  show "distinct (map s_id (new_samples df))" using r by simp
  show "set (map s_id (new_samples df)) \<inter> set (map s_id (samples d)) = {}" using p q r by simp
qed

lemma flush_ok:
  assumes "distinct (map p_id (new_projects df))"
    and "set (map p_id (new_projects df)) \<inter> set (map p_id (projects d)) = {}"
    and "distinct (map sub_id (new_subjects df))"
    and "set (map sub_id (new_subjects df)) \<inter> set (map sub_id (subjects d)) = {}"
    and "distinct (map s_id (new_samples df))"
    and "set (map s_id (new_samples df)) \<inter> set (map s_id (samples d)) = {}"
  shows "\<exists>d'. flush df d = Inr d'"
proof -
  have s1: "insert_all insert_project (new_projects df) d = Inr (d\<lparr>projects := projects d @ new_projects df\<rparr>)"
    using assms(1,2) by (rule insert_all_project_ok)
  define d1 where "d1 = d\<lparr>projects := projects d @ new_projects df\<rparr>"
  have s2: "insert_all insert_subject (new_subjects df) d1 = Inr (d1\<lparr>subjects := subjects d1 @ new_subjects df\<rparr>)"
    using assms(3,4) by (intro insert_all_subject_ok) (simp_all add: d1_def)
  define d2 where "d2 = d1\<lparr>subjects := subjects d1 @ new_subjects df\<rparr>"
  have s3: "insert_all insert_sample (new_samples df) d2 = Inr (d2\<lparr>samples := samples d2 @ new_samples df\<rparr>)"
    using assms(5,6) by (intro insert_all_sample_ok) (simp_all add: d1_def d2_def)
  define d3 where "d3 = d2\<lparr>samples := samples d2 @ new_samples df\<rparr>"
  from insert_all_cell_count[of "unpivot df" d3] obtain d4 where
    s4: "insert_all insert_cell_count (unpivot df) d3 = Inr d4" by blast
  have "flush df d = Inr d4"
    unfolding flush_def using s1 s2 s3 s4 by (simp add: d1_def d2_def d3_def)
  then show ?thesis by blast
qed

lemma load_csv_cases:
  "(\<exists>msg. load_csv d df = (Inl (IntegrityError msg), d)) \<or> (\<exists>d'. flush df d = Inr d' \<and> load_csv d df = (Inr (), d'))"
proof (cases "flush df d")
  case (Inl e)
  with flush_Inl[OF Inl] show ?thesis by (auto simp: load_csv_def)
next
  case (Inr d')
  then show ?thesis by (simp add: load_csv_def)
qed

lemma set_new_ids:
  "set (map p_id (new_projects df)) = csv_project ` set df"
  "set (map sub_id (new_subjects df)) = csv_subject ` set df"
  "set (map s_id (new_samples df)) = csv_sample ` set df"
  by (auto simp: new_projects_def new_subjects_def new_samples_def project_of_def subject_of_def
      sample_of_def image_iff)

lemma load_csv_Inr: "load_csv d df = (Inr (), d') \<Longrightarrow> flush df d = Inr d'"
  by (auto simp: load_csv_def split: sum.splits)

lemma load_rejects_aux:
  assumes "\<exists>r\<in>set df. csv_project r \<in> set (map p_id (projects d))
             \<or> csv_subject r \<in> set (map sub_id (subjects d))
             \<or> csv_sample r \<in> set (map s_id (samples d))"
  shows "\<exists>msg. load_csv d df = (Inl (IntegrityError msg), d)"
proof (rule ccontr)
  assume "\<not> ?thesis"
  with load_csv_cases[of d df] obtain d' where f: "flush df d = Inr d'" by blast
  from flush_Inr(6,8,10)[OF f] set_new_ids[of df] assms show False by blast
qed

lemma load_twice_aux:
  assumes "load_csv d df = (Inr (), d1)" and "df \<noteq> []"
  shows "\<exists>msg. load_csv d1 df = (Inl (IntegrityError msg), d1)"
proof -
  from assms(2) obtain r where r: "r \<in> set df" by (cases df) auto
  from flush_Inr(1)[OF load_csv_Inr[OF assms(1)]] set_new_ids(1)[of df] r
  have "csv_project r \<in> set (map p_id (projects d1))" by auto
  with r show ?thesis by (intro load_rejects_aux) blast
qed

lemmas load_eval =
  load_csv_def flush_def new_projects_def new_subjects_def new_samples_def project_of_def
  subject_of_def sample_of_def unpivot_def CELL_POPULATIONS_def csv_column_def next_id_def
  insert_project_step insert_subject_step insert_sample_step insert_cell_count_step

lemma load_one: "load_csv init_db [csv_row1] = (Inr (), db_one)"
  by (simp add: load_eval init_db_def db_one_def csv_row1_def del: insert_all.simps(2))

lemma load_one_again:
  "load_csv db_one [csv_row1] = (Inl (IntegrityError ''UNIQUE constraint failed: projects.id''), db_one)"
  by (simp add: load_eval db_one_def csv_row1_def del: insert_all.simps(2))

lemma load_other:
  "fst (load_csv db_one [csv_row3]) = Inr ()"
  "length (projects (snd (load_csv db_one [csv_row3]))) = 2"
  "length (subjects (snd (load_csv db_one [csv_row3]))) = 2"
  "length (samples (snd (load_csv db_one [csv_row3]))) = 2"
  "length (cell_counts (snd (load_csv db_one [csv_row3]))) = 10"
  by (simp_all add: load_eval db_one_def csv_row1_def csv_row3_def del: insert_all.simps(2))

lemma load_conflict:
  "load_csv init_db [csv_row1, csv_row4] = (Inl (IntegrityError ''UNIQUE constraint failed: subjects.id''), init_db)"
  by (simp add: load_eval init_db_def csv_row1_def csv_row2_def csv_row4_def del: insert_all.simps(2))

lemma load_twice_row:
  "fst (load_csv init_db [csv_row1, csv_row1]) = Inr ()"
  "length (filter (\<lambda>c. cc_sample_id c = ''sample1'' \<and> cc_population c = ''b_cell'')
            (cell_counts (snd (load_csv init_db [csv_row1, csv_row1])))) = 2"
  "length (samples (snd (load_csv init_db [csv_row1, csv_row1]))) = 1"
  by (simp_all add: load_eval init_db_def csv_row1_def del: insert_all.simps(2))

lemma count_distinct_key:
  "distinct (map f xs) \<Longrightarrow> k \<in> set (map f xs) \<Longrightarrow> length (filter (\<lambda>x. f x = k) xs) = 1"
proof (induction xs)
  case Nil
  then show ?case by simp
next
  case (Cons x xs)
  show ?case
  proof (cases "f x = k")
    case True
    with Cons.prems have "k \<notin> set (map f xs)" by auto
    then have "filter (\<lambda>x. f x = k) xs = []" by (auto simp: filter_empty_conv)
    with True show ?thesis by simp
  next
    case False
    with Cons show ?thesis by auto
  qed
qed

lemma count_absent_key: "k \<notin> set (map f xs) \<Longrightarrow> length (filter (\<lambda>x. f x = k) xs) = 0"
  by (auto simp: filter_empty_conv)

lemma ids_of_rows:
  "p_id (project_of r) = csv_project r" "sub_id (subject_of r) = csv_subject r"
  "s_id (sample_of r) = csv_sample r"
  by (simp_all add: project_of_def subject_of_def sample_of_def)

lemma distinct_new_projects: "distinct (map p_id (new_projects df))"
proof -
  have "inj_on p_id (set (new_projects df))"
    by (auto simp: inj_on_def new_projects_def project_of_def)
  then show ?thesis by (simp add: distinct_map new_projects_def)
qed

lemma distinct_new_subjects:
  "distinct (map sub_id (new_subjects df)) \<longleftrightarrow>
     (\<forall>r\<in>set df. \<forall>r'\<in>set df. csv_subject r = csv_subject r' \<longrightarrow> subject_of r = subject_of r')"
proof -
  have "distinct (map sub_id (new_subjects df)) \<longleftrightarrow> inj_on sub_id (subject_of ` set df)"
    by (simp add: distinct_map new_subjects_def)
  also have "\<dots> \<longleftrightarrow> (\<forall>r\<in>set df. \<forall>r'\<in>set df. csv_subject r = csv_subject r' \<longrightarrow> subject_of r = subject_of r')"
    by (auto simp: inj_on_def ids_of_rows)
  finally show ?thesis .
qed

lemma distinct_new_samples:
  "distinct (map s_id (new_samples df)) \<longleftrightarrow>
     (\<forall>r\<in>set df. \<forall>r'\<in>set df. csv_sample r = csv_sample r' \<longrightarrow> sample_of r = sample_of r')"
proof -
  have "distinct (map s_id (new_samples df)) \<longleftrightarrow> inj_on s_id (sample_of ` set df)"
    by (simp add: distinct_map new_samples_def)
  also have "\<dots> \<longleftrightarrow> (\<forall>r\<in>set df. \<forall>r'\<in>set df. csv_sample r = csv_sample r' \<longrightarrow> sample_of r = sample_of r')"
    by (auto simp: inj_on_def ids_of_rows)
  finally show ?thesis .
qed

lemma load_once_aux:
  assumes cs: "\<forall>r\<in>set df. \<forall>r'\<in>set df. csv_subject r = csv_subject r' \<longrightarrow> subject_of r = subject_of r'"
    and cm: "\<forall>r\<in>set df. \<forall>r'\<in>set df. csv_sample r = csv_sample r' \<longrightarrow> sample_of r = sample_of r'"
    and fp: "csv_project ` set df \<inter> set (map p_id (projects d)) = {}"
    and fs: "csv_subject ` set df \<inter> set (map sub_id (subjects d)) = {}"
    and fm: "csv_sample ` set df \<inter> set (map s_id (samples d)) = {}"
  shows "\<exists>d'. load_csv d df = (Inr (), d')
           \<and> (\<forall>r\<in>set df. length (filter (\<lambda>p. p_id p = csv_project r) (projects d')) = 1
                 \<and> length (filter (\<lambda>s. sub_id s = csv_subject r) (subjects d')) = 1
                 \<and> length (filter (\<lambda>s. s_id s = csv_sample r) (samples d')) = 1)"
proof -
  have dp: "distinct (map p_id (new_projects df))" by (rule distinct_new_projects)
  have ds: "distinct (map sub_id (new_subjects df))" using cs by (simp only: distinct_new_subjects)
  have dm: "distinct (map s_id (new_samples df))" using cm by (simp only: distinct_new_samples)
  from flush_ok[OF dp _ ds _ dm, of d] fp fs fm obtain d' where f: "flush df d = Inr d'"
    by (auto simp only: set_new_ids)
  have l: "load_csv d df = (Inr (), d')" using f by (simp add: load_csv_def)
  have "length (filter (\<lambda>p. p_id p = csv_project r) (projects d')) = 1
          \<and> length (filter (\<lambda>s. sub_id s = csv_subject r) (subjects d')) = 1
          \<and> length (filter (\<lambda>s. s_id s = csv_sample r) (samples d')) = 1" if r: "r \<in> set df" for r
  proof -
    have "csv_project r \<notin> set (map p_id (projects d))" using fp r by blast
    moreover have "csv_project r \<in> set (map p_id (new_projects df))"
      using r by (simp only: set_new_ids) simp
    ultimately have a: "length (filter (\<lambda>p. p_id p = csv_project r) (projects d')) = 1"
      using count_distinct_key[OF dp] count_absent_key[of "csv_project r" p_id "projects d"]
      by (simp add: flush_Inr(1)[OF f])
    have "csv_subject r \<notin> set (map sub_id (subjects d))" using fs r by blast
    moreover have "csv_subject r \<in> set (map sub_id (new_subjects df))"
      using r by (simp only: set_new_ids) simp
    ultimately have b: "length (filter (\<lambda>s. sub_id s = csv_subject r) (subjects d')) = 1"
      using count_distinct_key[OF ds] count_absent_key[of "csv_subject r" sub_id "subjects d"]
      by (simp add: flush_Inr(2)[OF f])
    have "csv_sample r \<notin> set (map s_id (samples d))" using fm r by blast
    moreover have "csv_sample r \<in> set (map s_id (new_samples df))"
      using r by (simp only: set_new_ids) simp
    ultimately have c: "length (filter (\<lambda>s. s_id s = csv_sample r) (samples d')) = 1"
      using count_distinct_key[OF dm] count_absent_key[of "csv_sample r" s_id "samples d"]
      by (simp add: flush_Inr(3)[OF f])
    from a b c show ?thesis by simp
  qed
  with l show ?thesis by blast
qed

lemma load_conflict_aux:
  assumes "(\<exists>r\<in>set df. \<exists>r'\<in>set df. csv_subject r = csv_subject r' \<and> subject_of r \<noteq> subject_of r')
           \<or> (\<exists>r\<in>set df. \<exists>r'\<in>set df. csv_sample r = csv_sample r' \<and> sample_of r \<noteq> sample_of r')"
  shows "\<exists>msg. load_csv d df = (Inl (IntegrityError msg), d)"
proof (rule ccontr)
  assume "\<not> ?thesis"
  with load_csv_cases[of d df] obtain d' where f: "flush df d = Inr d'" by blast
  from flush_Inr(7,9)[OF f] have
    "\<forall>r\<in>set df. \<forall>r'\<in>set df. csv_subject r = csv_subject r' \<longrightarrow> subject_of r = subject_of r'"
    "\<forall>r\<in>set df. \<forall>r'\<in>set df. csv_sample r = csv_sample r' \<longrightarrow> sample_of r = sample_of r'"
    by (simp_all only: distinct_new_subjects distinct_new_samples)
  with assms show False by blast
qed

lemma unpivot_keys:
  "map (\<lambda>x. (fst x, fst (snd x))) (unpivot df) =
     concat (map (\<lambda>pop. map (\<lambda>r. (csv_sample r, pop)) df) CELL_POPULATIONS)"
  by (simp add: unpivot_def CELL_POPULATIONS_def comp_def)

lemma distinct_key_pairs:
  "distinct pops \<Longrightarrow> distinct (map f df) \<Longrightarrow>
     distinct (concat (map (\<lambda>pop. map (\<lambda>r. (f r, pop)) df) pops))"
proof (induction pops)
  case Nil
  then show ?case by simp
next
  case (Cons p pops)
  have "inj_on (\<lambda>r. (f r, p)) (set df)"
    using Cons.prems(2) by (auto simp: inj_on_def distinct_map)
  then have a: "distinct (map (\<lambda>r. (f r, p)) df)"
    using Cons.prems(2) by (simp add: distinct_map)
  have b: "distinct (concat (map (\<lambda>pop. map (\<lambda>r. (f r, pop)) df) pops))"
    using Cons by simp
  have s1: "snd ` set (concat (map (\<lambda>pop. map (\<lambda>r. (f r, pop)) df) pops)) \<subseteq> set pops"
    by auto
  have s2: "snd ` set (map (\<lambda>r. (f r, p)) df) \<subseteq> {p}"
    by auto
  have np: "p \<notin> set pops" using Cons.prems(1) by simp
  have c: "set (map (\<lambda>r. (f r, p)) df)
           \<inter> set (concat (map (\<lambda>pop. map (\<lambda>r. (f r, pop)) df) pops)) = {}"
  proof (rule ccontr)
    assume "\<not> ?thesis"
    then obtain x where x1: "x \<in> set (map (\<lambda>r. (f r, p)) df)"
      and x2: "x \<in> set (concat (map (\<lambda>pop. map (\<lambda>r. (f r, pop)) df) pops))"
      by blast
    from x1 s2 have "snd x = p" by blast
    moreover from x2 s1 have "snd x \<in> set pops" by blast
    ultimately show False using np by simp
  qed
  show ?case using a b c by simp
qed

lemma distinct_unpivot_keys:
  assumes "distinct (map csv_sample df)"
  shows "distinct (map (\<lambda>x. (fst x, fst (snd x))) (unpivot df))"
proof -
  have "distinct CELL_POPULATIONS" by (simp add: CELL_POPULATIONS_def)
  then show ?thesis unfolding unpivot_keys using assms by (rule distinct_key_pairs)
qed

lemma unpivot_samples: "fst ` set (unpivot df) \<subseteq> csv_sample ` set df"
  by (auto simp: unpivot_def)

lemma load_keeps_unique_aux:
  assumes u: "cell_counts_unique d"
    and ri: "\<forall>cc\<in>set (cell_counts d). cc_sample_id cc \<in> set (map s_id (samples d))"
    and ds: "distinct (map csv_sample df)"
    and l: "load_csv d df = (Inr (), d')"
  shows "cell_counts_unique d' \<and> (\<forall>cc\<in>set (cell_counts d'). cc_sample_id cc \<in> set (map s_id (samples d')))"
proof -
  note f = load_csv_Inr[OF l]
  from flush_Inr(4)[OF f] obtain ccs where
    cc: "cell_counts d' = cell_counts d @ ccs"
    and tr: "map (\<lambda>c. (cc_sample_id c, cc_population c, cc_count c)) ccs = unpivot df"
    by blast
  have keys: "map (\<lambda>c. (cc_sample_id c, cc_population c)) ccs = map (\<lambda>x. (fst x, fst (snd x))) (unpivot df)"
  proof -
    have "map (\<lambda>c. (cc_sample_id c, cc_population c)) ccs
            = map (\<lambda>x. (fst x, fst (snd x))) (map (\<lambda>c. (cc_sample_id c, cc_population c, cc_count c)) ccs)"
      by (simp add: comp_def)
    then show ?thesis by (simp only: tr)
  qed
  have ids: "cc_sample_id ` set ccs \<subseteq> csv_sample ` set df"
  proof -
    have "cc_sample_id ` set ccs = fst ` set (map (\<lambda>c. (cc_sample_id c, cc_population c, cc_count c)) ccs)"
      by (simp add: image_image)
    then show ?thesis using unpivot_samples[of df] by (simp only: tr)
  qed
  have new: "csv_sample ` set df = set (map s_id (new_samples df))" by (simp only: set_new_ids)
  have disj: "csv_sample ` set df \<inter> set (map s_id (samples d)) = {}"
    using flush_Inr(10)[OF f] by (simp only: set_new_ids)
  have "distinct (map (\<lambda>c. (cc_sample_id c, cc_population c)) ccs)"
    unfolding keys using ds by (rule distinct_unpivot_keys)
  moreover have "set (map (\<lambda>c. (cc_sample_id c, cc_population c)) (cell_counts d))
                   \<inter> set (map (\<lambda>c. (cc_sample_id c, cc_population c)) ccs) = {}"
  proof (rule ccontr)
    assume "\<not> ?thesis"
    then obtain c c' where c: "c \<in> set (cell_counts d)" and c': "c' \<in> set ccs"
      and eq: "(cc_sample_id c, cc_population c) = (cc_sample_id c', cc_population c')"
      by auto
    from c ri have "cc_sample_id c \<in> set (map s_id (samples d))" by blast
    moreover from c' ids have "cc_sample_id c' \<in> csv_sample ` set df" by blast
    ultimately show False using eq disj by auto
  qed
  ultimately have "cell_counts_unique d'"
    using u by (simp add: cell_counts_unique_def cc)
  moreover have "\<forall>c\<in>set (cell_counts d'). cc_sample_id c \<in> set (map s_id (samples d'))"
    using ri ids new by (auto simp: cc flush_Inr(3)[OF f])
  ultimately show ?thesis by simp
qed

lemma keys_repeated_sample:
  "map (\<lambda>c. (cc_sample_id c, cc_population c)) (cell_counts (snd (load_csv init_db [csv_row1, csv_row1])))
     = [(''sample1'', ''b_cell''), (''sample1'', ''b_cell''),
        (''sample1'', ''cd8_t_cell''), (''sample1'', ''cd8_t_cell''),
        (''sample1'', ''cd4_t_cell''), (''sample1'', ''cd4_t_cell''),
        (''sample1'', ''nk_cell''), (''sample1'', ''nk_cell''),
        (''sample1'', ''monocyte''), (''sample1'', ''monocyte'')]"
  by (simp add: load_eval init_db_def csv_row1_def del: insert_all.simps(2))

lemma load_two: "load_csv init_db [csv_row1, csv_row2] = (Inr (), db_two)"
  by (simp add: load_eval init_db_def db_two_def csv_row1_def csv_row2_def del: insert_all.simps(2))

lemma filter_key_distinct:
  "distinct (map f xs) \<Longrightarrow> k \<in> set (map f xs) \<Longrightarrow> filter (\<lambda>x. f x = k) xs = [the (find (\<lambda>x. f x = k) xs)]"
proof (induction xs)
  case Nil
  then show ?case by simp
next
  case (Cons x xs)
  show ?case
  proof (cases "f x = k")
    case True
    with Cons.prems have "k \<notin> set (map f xs)" by auto
    then have "filter (\<lambda>x. f x = k) xs = []" by (auto simp: filter_empty_conv)
    with True show ?thesis by simp
  next
    case False
    with Cons show ?thesis by auto
  qed
qed

lemma filter_eq_distinct: "distinct ks \<Longrightarrow> k \<in> set ks \<Longrightarrow> filter (\<lambda>x. x = k) ks = [k]"
proof (induction ks)
  case Nil
  then show ?case by simp
next
  case (Cons a ks)
  show ?case
  proof (cases "a = k")
    case True
    with Cons.prems have "k \<notin> set ks" by auto
    then have "filter (\<lambda>x. x = k) ks = []" by (auto simp: filter_empty_conv)
    with True show ?thesis by simp
  next
    case False
    with Cons show ?thesis by auto
  qed
qed

lemma group_sum_keys: "map fst (group_sum key val df) = remdups (map key df)"
  by (simp add: group_sum_def comp_def)

lemma group_sum_lookup:
  assumes "r \<in> set df"
  shows "filter (\<lambda>t. fst t = key r) (group_sum key val df)
           = [(key r, sum_list (map val (filter (\<lambda>x. key x = key r) df)))]"
proof -
  have d: "distinct (remdups (map key df))" by simp
  have k: "key r \<in> set (remdups (map key df))" using assms by simp
  have "filter (\<lambda>t. fst t = key r) (group_sum key val df)
          = map (\<lambda>k. (k, sum_list (map val (filter (\<lambda>x. key x = k) df))))
              (filter (\<lambda>k. k = key r) (remdups (map key df)))"
    by (simp add: group_sum_def filter_map comp_def)
  also have "filter (\<lambda>k. k = key r) (remdups (map key df)) = [key r]"
    using d k by (rule filter_eq_distinct)
  finally show ?thesis by simp
qed

lemma join_group_sum:
  "join_totals key df (group_sum key val df)
     = map (\<lambda>r. (r, sum_list (map val (filter (\<lambda>x. key x = key r) df)))) df"
proof -
  have "map (\<lambda>t. (r, snd t)) (filter (\<lambda>t. fst t = key r) (group_sum key val df))
          = [(r, sum_list (map val (filter (\<lambda>x. key x = key r) df)))]" if "r \<in> set df" for r
    using group_sum_lookup[OF that, of key val] by simp
  then have "map (\<lambda>r. map (\<lambda>t. (r, snd t)) (filter (\<lambda>t. fst t = key r) (group_sum key val df))) df
          = map (\<lambda>r. [(r, sum_list (map val (filter (\<lambda>x. key x = key r) df)))]) df"
    by (intro map_cong) simp_all
  then have "join_totals key df (group_sum key val df)
          = concat (map (\<lambda>r. [(r, sum_list (map val (filter (\<lambda>x. key x = key r) df)))]) df)"
    by (simp only: join_totals_def)
  also have "\<dots> = map (\<lambda>r. (r, sum_list (map val (filter (\<lambda>x. key x = key r) df)))) df"
    by (induction df) simp_all
  finally show ?thesis .
qed

lemma frequency_table_rows:
  "get_frequency_table d =
     sort_key (\<lambda>r. (ft_sample r, ft_population r))
       (map (\<lambda>r. \<lparr>ft_sample = fq_sample_id r, ft_project_id = fq_project_id r,
               ft_condition = fq_condition r, ft_treatment = fq_treatment r,
               ft_sample_type = fq_sample_type r,
               ft_total_count = sum_list (map fq_count (filter (\<lambda>x. fq_sample_id x = fq_sample_id r) (frequency_query d))),
               ft_population = fq_population r, ft_count = fq_count r,
               ft_percentage = percentage_of (fq_count r)
                  (sum_list (map fq_count (filter (\<lambda>x. fq_sample_id x = fq_sample_id r) (frequency_query d))))\<rparr>)
          (frequency_query d))"
  by (simp add: get_frequency_table_def Let_def join_group_sum comp_def)

lemma responder_frequencies_rows:
  "get_responder_frequencies d =
     sort_key (\<lambda>r. (rf_sample_id r, rf_population r))
       (map (\<lambda>r. \<lparr>rf_sample_id = rq_sample_id r, rf_population = rq_population r,
               rf_percentage = percentage_of (rq_count r)
                  (sum_list (map rq_count (filter (\<lambda>x. rq_sample_id x = rq_sample_id r) (responder_query d)))),
               rf_response = rq_response r\<rparr>)
          (responder_query d))"
  by (simp add: get_responder_frequencies_def Let_def join_group_sum comp_def)

lemma joined_lookup:
  assumes "primary_keys d" and "referential_integrity d"
  shows "joined d = map (\<lambda>cc. (cc, sample_for d cc, subject_for d cc)) (cell_counts d)"
proof -
  have one: "concat (map (\<lambda>s. map (\<lambda>sub. (cc, s, sub)) (filter (\<lambda>sub. s_subject_id s = sub_id sub) (subjects d)))
                (filter (\<lambda>s. cc_sample_id cc = s_id s) (samples d)))
             = [(cc, sample_for d cc, subject_for d cc)]" if cc: "cc \<in> set (cell_counts d)" for cc
  proof -
    have ds: "distinct (map s_id (samples d))" and db: "distinct (map sub_id (subjects d))"
      using assms(1) by (simp_all add: primary_keys_def)
    have "cc_sample_id cc \<in> set (map s_id (samples d))"
      using assms(2) cc by (simp add: referential_integrity_def)
    from filter_key_distinct[OF ds this]
    have fs: "filter (\<lambda>s. cc_sample_id cc = s_id s) (samples d) = [sample_for d cc]"
      by (simp add: sample_for_def eq_commute)
    have "sample_for d cc \<in> set (filter (\<lambda>s. cc_sample_id cc = s_id s) (samples d))"
      by (simp only: fs) simp
    then have "sample_for d cc \<in> set (samples d)"
      by simp
    then have "s_subject_id (sample_for d cc) \<in> set (map sub_id (subjects d))"
      using assms(2) by (simp add: referential_integrity_def)
    from filter_key_distinct[OF db this]
    have "filter (\<lambda>sub. s_subject_id (sample_for d cc) = sub_id sub) (subjects d) = [subject_for d cc]"
      by (simp add: subject_for_def eq_commute)
    with fs show ?thesis by simp
  qed
  have "joined d = concat (map (\<lambda>cc. [(cc, sample_for d cc, subject_for d cc)]) (cell_counts d))"
    unfolding joined_def using one by (intro arg_cong[where f = concat] map_cong) simp_all
  also have "\<dots> = map (\<lambda>cc. (cc, sample_for d cc, subject_for d cc)) (cell_counts d)"
    by (induction "cell_counts d") (simp_all add: concat_map_singleton)
  finally show ?thesis .
qed

lemma joined_members:
  "(cc, s, sub) \<in> set (joined d) \<Longrightarrow> cc \<in> set (cell_counts d)"
  by (auto simp: joined_def)

lemma frequency_query_counts: "r \<in> set (frequency_query d) \<Longrightarrow> fq_count r \<in> cc_count ` set (cell_counts d)"
  by (auto simp: frequency_query_def dest: joined_members)

lemma responder_query_counts: "r \<in> set (responder_query d) \<Longrightarrow> rq_count r \<in> cc_count ` set (cell_counts d)"
  by (auto simp: responder_query_def dest: joined_members)

lemma percentage_of_zero_total: "percentage_of 0 0 = NaN"
  by (simp add: percentage_of_def int_truediv_def f64_scale_def f64_round_def)

lemma percentage_of_nonzero_total:
  "t \<noteq> 0 \<Longrightarrow> percentage_of c t = Fin (round_to 2 (100 * of_int c / of_int t))"
  by (simp add: percentage_of_def int_truediv_def f64_scale_def f64_round_def mult.commute)

lemma zero_total_zero_count:
  fixes val :: "'r \<Rightarrow> int"
  assumes "\<forall>x\<in>set df. 0 \<le> val x" and "r \<in> set df"
    and "sum_list (map val (filter (\<lambda>x. key x = key r) df)) = 0"
  shows "val r = 0"
proof -
  have "\<forall>v\<in>set (map val (filter (\<lambda>x. key x = key r) df)). 0 \<le> v" using assms(1) by auto
  then have "\<forall>v\<in>set (map val (filter (\<lambda>x. key x = key r) df)). v = 0"
    using assms(3) by (simp only: sum_list_nonneg_eq_0_iff)
  moreover have "val r \<in> set (map val (filter (\<lambda>x. key x = key r) df))" using assms(2) by auto
  ultimately show ?thesis by blast
qed

lemma frequency_zero_total_aux:
  assumes nn: "\<forall>cc\<in>set (cell_counts d). 0 \<le> cc_count cc"
    and r: "r \<in> set (get_frequency_table d)" and z: "ft_total_count r = 0"
  shows "ft_percentage r = NaN"
proof -
  from r obtain q where q: "q \<in> set (frequency_query d)"
    and tot: "ft_total_count r = sum_list (map fq_count (filter (\<lambda>x. fq_sample_id x = fq_sample_id q) (frequency_query d)))"
    and cnt: "ft_count r = fq_count q"
    and pct: "ft_percentage r = percentage_of (ft_count r) (ft_total_count r)"
    unfolding frequency_table_rows by auto
  have "\<forall>x\<in>set (frequency_query d). 0 \<le> fq_count x"
    using nn frequency_query_counts by fastforce
  from zero_total_zero_count[OF this q, of fq_sample_id] tot z have "fq_count q = 0" by simp
  with pct cnt z show ?thesis by (simp add: percentage_of_zero_total)
qed

lemma group_sum_member:
  "(k, t) \<in> set (group_sum key val df) \<longleftrightarrow>
     k \<in> key ` set df \<and> t = sum_list (map val (filter (\<lambda>x. key x = k) df))"
  by (auto simp: group_sum_def)

lemma responder_zero_total_aux:
  assumes nn: "\<forall>cc\<in>set (cell_counts d). 0 \<le> cc_count cc"
    and r: "r \<in> set (get_responder_frequencies d)"
    and z: "(rf_sample_id r, 0) \<in> set (group_sum rq_sample_id rq_count (responder_query d))"
  shows "rf_percentage r = NaN"
proof -
  from r obtain q where q: "q \<in> set (responder_query d)"
    and sid: "rf_sample_id r = rq_sample_id q"
    and pct: "rf_percentage r = percentage_of (rq_count q)
        (sum_list (map rq_count (filter (\<lambda>x. rq_sample_id x = rq_sample_id q) (responder_query d))))"
    unfolding responder_frequencies_rows by auto
  from z sid have tot: "sum_list (map rq_count (filter (\<lambda>x. rq_sample_id x = rq_sample_id q) (responder_query d))) = 0"
    by (simp add: group_sum_member)
  have "\<forall>x\<in>set (responder_query d). 0 \<le> rq_count x"
    using nn responder_query_counts by fastforce
  from zero_total_zero_count[OF this q, of rq_sample_id] tot have "rq_count q = 0" by simp
  with pct tot show ?thesis by (simp add: percentage_of_zero_total)
qed

lemma in_responders:
  "r \<in> set df \<Longrightarrow> rf_response r = Some ''yes'' \<Longrightarrow> rf_percentage r \<in> set (responders df (rf_population r))"
  "r \<in> set df \<Longrightarrow> rf_response r = Some ''no'' \<Longrightarrow> rf_percentage r \<in> set (non_responders df (rf_population r))"
  by (auto simp: responders_def non_responders_def pop_df_def)

lemma frequency_query_lookup:
  assumes "primary_keys d" and "referential_integrity d"
  shows "frequency_query d =
     map (\<lambda>cc. \<lparr>fq_sample_id = cc_sample_id cc, fq_population = cc_population cc, fq_count = cc_count cc,
        fq_project_id = sub_project_id (subject_for d cc), fq_condition = sub_condition (subject_for d cc),
        fq_treatment = sub_treatment (subject_for d cc), fq_sample_type = s_sample_type (sample_for d cc)\<rparr>)
       (cell_counts d)"
  by (simp add: frequency_query_def joined_lookup[OF assms] comp_def)

lemma frequency_table_lookup:
  assumes "primary_keys d" and "referential_integrity d"
  shows "get_frequency_table d =
           sort_key (\<lambda>r. (ft_sample r, ft_population r)) (map (frequency_row d) (cell_counts d))"
proof -
  have tot: "sum_list (map fq_count (filter (\<lambda>x. fq_sample_id x = sid) (frequency_query d))) = sample_total d sid"
    for sid
    by (simp add: frequency_query_lookup[OF assms] sample_total_def filter_map comp_def)
  have row: "frequency_row d = (\<lambda>cc.
      \<lparr>ft_sample = cc_sample_id cc, ft_project_id = sub_project_id (subject_for d cc),
       ft_condition = sub_condition (subject_for d cc), ft_treatment = sub_treatment (subject_for d cc),
       ft_sample_type = s_sample_type (sample_for d cc),
       ft_total_count = sample_total d (cc_sample_id cc),
       ft_population = cc_population cc, ft_count = cc_count cc,
       ft_percentage = percentage_of (cc_count cc) (sample_total d (cc_sample_id cc))\<rparr>)"
    by (rule ext) (simp add: frequency_row_def)
  show ?thesis
    unfolding frequency_table_rows tot row
    by (simp add: frequency_query_lookup[OF assms] comp_def)
qed

lemma pk_one: "primary_keys db_one" "referential_integrity db_one"
  by (simp_all add: primary_keys_def referential_integrity_def db_one_def subject_of_def sample_of_def csv_row1_def)

lemma joined_one: "joined db_one = map (\<lambda>cc. (cc, sample_of csv_row1, subject_of csv_row1)) (cell_counts db_one)"
  by (simp add: joined_def db_one_def subject_of_def sample_of_def csv_row1_def)

lemma frequency_table_one: "get_frequency_table db_one =
  [\<lparr>ft_sample = ''sample1'', ft_project_id = ''prj1'', ft_condition = ''melanoma'',
    ft_treatment = Some ''miraclib'', ft_sample_type = ''PBMC'', ft_total_count = 100,
    ft_population = ''b_cell'', ft_count = 10, ft_percentage = Fin 10\<rparr>,
   \<lparr>ft_sample = ''sample1'', ft_project_id = ''prj1'', ft_condition = ''melanoma'',
    ft_treatment = Some ''miraclib'', ft_sample_type = ''PBMC'', ft_total_count = 100,
    ft_population = ''cd4_t_cell'', ft_count = 30, ft_percentage = Fin 30\<rparr>,
   \<lparr>ft_sample = ''sample1'', ft_project_id = ''prj1'', ft_condition = ''melanoma'',
    ft_treatment = Some ''miraclib'', ft_sample_type = ''PBMC'', ft_total_count = 100,
    ft_population = ''cd8_t_cell'', ft_count = 20, ft_percentage = Fin 20\<rparr>,
   \<lparr>ft_sample = ''sample1'', ft_project_id = ''prj1'', ft_condition = ''melanoma'',
    ft_treatment = Some ''miraclib'', ft_sample_type = ''PBMC'', ft_total_count = 100,
    ft_population = ''monocyte'', ft_count = 15, ft_percentage = Fin 15\<rparr>,
   \<lparr>ft_sample = ''sample1'', ft_project_id = ''prj1'', ft_condition = ''melanoma'',
    ft_treatment = Some ''miraclib'', ft_sample_type = ''PBMC'', ft_total_count = 100,
    ft_population = ''nk_cell'', ft_count = 25, ft_percentage = Fin 25\<rparr>]"
  unfolding frequency_table_rows frequency_query_def joined_one
  by (simp add: db_one_def subject_of_def sample_of_def csv_row1_def percentage_of_nonzero_total
      round_to_of_int[of 2 10, simplified] round_to_of_int[of 2 20, simplified] round_to_of_int[of 2 30, simplified]
      round_to_of_int[of 2 15, simplified] round_to_of_int[of 2 25, simplified])

lemma cells_zero:
  "map (\<lambda>c. (cc_sample_id c, cc_population c, cc_count c)) (cell_counts db_zero) =
     unpivot [csv_row0, csv_row5, csv_row6]"
  "samples db_zero = [sample_of csv_row0, sample_of csv_row5, sample_of csv_row6]"
  "subjects db_zero = [subject_of csv_row0, subject_of csv_row5]"
  by (simp_all add: db_zero_def load_eval init_db_def csv_row0_def csv_row1_def csv_row5_def csv_row6_def
      del: insert_all.simps(2))

lemma nonneg_zero: "\<forall>cc\<in>set (cell_counts db_zero). 0 \<le> cc_count cc"
proof -
  have "\<forall>t\<in>set (map (\<lambda>c. (cc_sample_id c, cc_population c, cc_count c)) (cell_counts db_zero)). 0 \<le> snd (snd t)"
    unfolding cells_zero
    by (simp add: unpivot_def CELL_POPULATIONS_def csv_column_def csv_row0_def csv_row1_def csv_row5_def csv_row6_def)
  then show ?thesis by simp
qed

lemma responder_query_zero:
  "responder_query db_zero =
     [\<lparr>rq_sample_id = ''sample0'', rq_population = ''b_cell'', rq_count = 0, rq_response = Some ''yes''\<rparr>,
      \<lparr>rq_sample_id = ''sample5'', rq_population = ''b_cell'', rq_count = 10, rq_response = Some ''no''\<rparr>,
      \<lparr>rq_sample_id = ''sample6'', rq_population = ''b_cell'', rq_count = 0, rq_response = Some ''no''\<rparr>,
      \<lparr>rq_sample_id = ''sample0'', rq_population = ''cd8_t_cell'', rq_count = 0, rq_response = Some ''yes''\<rparr>,
      \<lparr>rq_sample_id = ''sample5'', rq_population = ''cd8_t_cell'', rq_count = 20, rq_response = Some ''no''\<rparr>,
      \<lparr>rq_sample_id = ''sample6'', rq_population = ''cd8_t_cell'', rq_count = 0, rq_response = Some ''no''\<rparr>,
      \<lparr>rq_sample_id = ''sample0'', rq_population = ''cd4_t_cell'', rq_count = 0, rq_response = Some ''yes''\<rparr>,
      \<lparr>rq_sample_id = ''sample5'', rq_population = ''cd4_t_cell'', rq_count = 30, rq_response = Some ''no''\<rparr>,
      \<lparr>rq_sample_id = ''sample6'', rq_population = ''cd4_t_cell'', rq_count = 0, rq_response = Some ''no''\<rparr>,
      \<lparr>rq_sample_id = ''sample0'', rq_population = ''nk_cell'', rq_count = 0, rq_response = Some ''yes''\<rparr>,
      \<lparr>rq_sample_id = ''sample5'', rq_population = ''nk_cell'', rq_count = 25, rq_response = Some ''no''\<rparr>,
      \<lparr>rq_sample_id = ''sample6'', rq_population = ''nk_cell'', rq_count = 0, rq_response = Some ''no''\<rparr>,
      \<lparr>rq_sample_id = ''sample0'', rq_population = ''monocyte'', rq_count = 0, rq_response = Some ''yes''\<rparr>,
      \<lparr>rq_sample_id = ''sample5'', rq_population = ''monocyte'', rq_count = 15, rq_response = Some ''no''\<rparr>,
      \<lparr>rq_sample_id = ''sample6'', rq_population = ''monocyte'', rq_count = 0, rq_response = Some ''no''\<rparr>]"
  by (simp add: responder_query_def joined_def db_zero_def load_eval init_db_def csv_row0_def csv_row1_def
      csv_row5_def csv_row6_def del: insert_all.simps(2))

lemma groups_zero:
  "responders (get_responder_frequencies db_zero) ''b_cell'' = [NaN]"
  "non_responders (get_responder_frequencies db_zero) ''b_cell'' = [Fin 10, NaN]"
  unfolding responder_frequencies_rows responder_query_zero
  by (simp_all add: responders_def non_responders_def pop_df_def percentage_of_zero_total
      percentage_of_nonzero_total round_to_of_int[of 2 10, simplified])

lemma totals_zero: "(''sample0'', 0) \<in> set (group_sum rq_sample_id rq_count (responder_query db_zero))"
  "(''sample6'', 0) \<in> set (group_sum rq_sample_id rq_count (responder_query db_zero))"
  unfolding responder_query_zero by (simp_all add: group_sum_def)

lemma rows_zero:
  "\<lparr>rf_sample_id = ''sample0'', rf_population = ''b_cell'', rf_percentage = NaN, rf_response = Some ''yes''\<rparr>
     \<in> set (get_responder_frequencies db_zero)"
  "\<lparr>rf_sample_id = ''sample6'', rf_population = ''b_cell'', rf_percentage = NaN, rf_response = Some ''no''\<rparr>
     \<in> set (get_responder_frequencies db_zero)"
  unfolding responder_frequencies_rows responder_query_zero
  by (simp_all add: percentage_of_zero_total)

lemma frequency_row_zero:
  "\<lparr>ft_sample = ''sample0'', ft_project_id = ''prj1'', ft_condition = ''melanoma'',
    ft_treatment = Some ''miraclib'', ft_sample_type = ''PBMC'', ft_total_count = 0,
    ft_population = ''b_cell'', ft_count = 0, ft_percentage = NaN\<rparr>
     \<in> set (get_frequency_table db_zero)"
  unfolding frequency_table_rows
  by (simp add: frequency_query_def joined_def db_zero_def load_eval init_db_def csv_row0_def csv_row1_def
      csv_row5_def csv_row6_def percentage_of_zero_total del: insert_all.simps(2))

lemma load_appends_aux:
  assumes "\<forall>r\<in>set df. \<forall>r'\<in>set df. csv_subject r = csv_subject r' \<longrightarrow> subject_of r = subject_of r'"
    and "\<forall>r\<in>set df. \<forall>r'\<in>set df. csv_sample r = csv_sample r' \<longrightarrow> sample_of r = sample_of r'"
    and "csv_project ` set df \<inter> set (map p_id (projects d)) = {}"
    and "csv_subject ` set df \<inter> set (map sub_id (subjects d)) = {}"
    and "csv_sample ` set df \<inter> set (map s_id (samples d)) = {}"
  shows "\<exists>d'. load_csv d df = (Inr (), d')
           \<and> projects d' = projects d @ new_projects df
           \<and> subjects d' = subjects d @ new_subjects df
           \<and> samples d' = samples d @ new_samples df"
proof -
  from load_once_aux[OF assms] obtain d' where l: "load_csv d df = (Inr (), d')" by blast
  note f = load_csv_Inr[OF l]
  from l flush_Inr(1,2,3)[OF f] show ?thesis by blast
qed




















section \<open>Claims about the significance table\<close>

text \<open>
  C1 (amended).  In every row of the table returned by \<open>get_significance_tests\<close>, the flag
  \<open>significant\<close> is \<open>p < 0.05\<close> for the p-value \<open>p\<close> that the test returned, before
  rounding, and \<open>p_value\<close> is \<open>p\<close> rounded to 4 decimals.  A reported \<open>p_value\<close> below 0.05
  implies the flag; the flag is set with a reported \<open>p_value\<close> not below 0.05 only when that
  reported value is exactly 0.05 (that is, \<open>0.04995 \<le> p < 0.05\<close>).
\<close>


theorem significance_flag_unrounded:
  assumes "get_significance_tests mwu df = Inr out" and "r \<in> set out"
  shows "\<exists>stat p. mwu (responders df (sg_population r)) (non_responders df (sg_population r)) = Inr (stat, p)
           \<and> p_value r = f64_round 4 p
           \<and> significant r = f64_less p (1 / 20)
           \<and> (f64_less (p_value r) (1 / 20) \<longrightarrow> significant r)
           \<and> (significant r \<and> \<not> f64_less (p_value r) (1 / 20) \<longrightarrow> p_value r = Fin (1 / 20))"
proof -
  from significance_row[OF assms] obtain sp where
    sp: "mwu (responders df (sg_population r)) (non_responders df (sg_population r)) = Inr sp"
    and r: "r = make_row (sg_population r) sp"
    by blast
  obtain stat p where pair: "sp = (stat, p)" by (cases sp)
  have pv: "p_value r = f64_round 4 p" and sg: "significant r = f64_less p (1 / 20)"
    using r pair by (metis make_row_def select_convs(3) snd_conv, metis make_row_def select_convs(4) snd_conv)
  show ?thesis
    using sp pair pv sg flag_consistent[of p] by auto
qed

text \<open>The theorem at the example of complete separation (U = 0, p = 0.1).\<close>

theorem significance_flag_unrounded_witness:
  "get_significance_tests mannwhitneyu df_separated = Inr [row_separated]
   \<and> row_separated \<in> set [row_separated]
   \<and> (\<exists>stat p. mannwhitneyu (responders df_separated (sg_population row_separated))
                   (non_responders df_separated (sg_population row_separated)) = Inr (stat, p)
           \<and> p_value row_separated = f64_round 4 p
           \<and> significant row_separated = f64_less p (1 / 20)
           \<and> (f64_less (p_value row_separated) (1 / 20) \<longrightarrow> significant row_separated)
           \<and> (significant row_separated \<and> \<not> f64_less (p_value row_separated) (1 / 20)
                \<longrightarrow> p_value row_separated = Fin (1 / 20)))"
proof -
  have h1: "get_significance_tests mannwhitneyu df_separated = Inr [row_separated]"
    by (rule tests_separated)
  have h2: "row_separated \<in> set [row_separated]" by simp
  from significance_flag_unrounded[OF h1 h2] h1 h2 show ?thesis by blast
qed

text \<open>
  C1 as stated fails: three responders against 61 non-responders with U = 30 have the exact
  p-value 2082/41664 = 0.04997..., reported as 0.05 with the flag set.
\<close>

theorem significance_flag_rounded_counterexample:
  "get_significance_tests mannwhitneyu df_boundary = Inr [row_boundary]
   \<and> significant row_boundary \<noteq> f64_less (p_value row_boundary) (1 / 20)"
  using tests_boundary by (simp add: row_boundary_def f64_less_def)

text \<open>
  C3 (amended).  \<open>get_significance_tests\<close> makes no check of its own for an empty responder or
  non-responder group: the lists go to the library test as they are.  The operation fails
  exactly when that call raises for some population, and then with the error of the call,
  unchanged; when the call returns for every population, the table has one row per population,
  built from what the call returned, also for a population with an empty group.
\<close>


theorem significance_error_is_library_error:
  "(\<forall>e. get_significance_tests mwu df = Inl e \<longrightarrow>
        (\<exists>pop\<in>set (populations df). mwu (responders df pop) (non_responders df pop) = Inl e))
   \<and> ((\<exists>pop\<in>set (populations df). \<exists>e. mwu (responders df pop) (non_responders df pop) = Inl e) \<longrightarrow>
        (\<exists>e. get_significance_tests mwu df = Inl e))
   \<and> ((\<forall>pop\<in>set (populations df). \<exists>sp. mwu (responders df pop) (non_responders df pop) = Inr sp) \<longrightarrow>
        get_significance_tests mwu df =
          Inr (map (\<lambda>pop. make_row pop (projr (mwu (responders df pop) (non_responders df pop)))) (populations df)))"
  unfolding get_significance_tests_def
  using significance_loop_Inl[of mwu df "populations df" "[]"]
        significance_loop_fails[of "populations df" mwu df "[]"]
        significance_loop_succeeds[of "populations df" mwu df "[]"]
  by auto

text \<open>The theorem on a frame whose only population has no non-responders, for both behaviours of the library.\<close>

theorem significance_error_is_library_error_witness:
  "get_significance_tests mannwhitneyu df_one_group = Inl (ValueError ''`x` and `y` must be of nonzero size.'')
   \<and> (\<exists>pop\<in>set (populations df_one_group).
         mannwhitneyu (responders df_one_group pop) (non_responders df_one_group pop)
           = Inl (ValueError ''`x` and `y` must be of nonzero size.''))
   \<and> (\<exists>e. get_significance_tests mannwhitneyu df_one_group = Inl e)
   \<and> populations df_one_group = [''b_cell'']
   \<and> mannwhitneyu_nan (responders df_one_group ''b_cell'') (non_responders df_one_group ''b_cell'')
         = Inr (NaN, NaN)
   \<and> get_significance_tests mannwhitneyu_nan df_one_group =
         Inr (map (\<lambda>pop. make_row pop (projr (mannwhitneyu_nan (responders df_one_group pop)
                                                  (non_responders df_one_group pop))))
                (populations df_one_group))"
proof -
  have h1: "get_significance_tests mannwhitneyu df_one_group = Inl (ValueError ''`x` and `y` must be of nonzero size.'')"
    by (rule tests_one_group_raise)
  have h2: "\<exists>pop\<in>set (populations df_one_group). \<exists>e.
              mannwhitneyu (responders df_one_group pop) (non_responders df_one_group pop) = Inl e"
    by (simp add: populations_one_group groups_one_group mannwhitneyu_def)
  have h3: "\<forall>pop\<in>set (populations df_one_group). \<exists>sp.
              mannwhitneyu_nan (responders df_one_group pop) (non_responders df_one_group pop) = Inr sp"
    by (simp add: mannwhitneyu_nan_def)
  have h4: "mannwhitneyu_nan (responders df_one_group ''b_cell'') (non_responders df_one_group ''b_cell'')
              = Inr (NaN, NaN)"
    by (simp add: groups_one_group mannwhitneyu_nan_def)
  from significance_error_is_library_error[of mannwhitneyu df_one_group]
       significance_error_is_library_error[of mannwhitneyu_nan df_one_group] h1 h2 h3 h4
       populations_one_group
  show ?thesis by blast
qed

text \<open>
  C3 as stated fails on that frame: where the library raises, the error is the library's and
  does not contain the population name; where it returns NaN, the table has a row of NaN.
\<close>

theorem empty_group_error_counterexample:
  "non_responders df_one_group ''b_cell'' = []
   \<and> get_significance_tests mannwhitneyu df_one_group = Inl (ValueError ''`x` and `y` must be of nonzero size.'')
   \<and> \<not> sublist ''b_cell'' ''`x` and `y` must be of nonzero size.''
   \<and> get_significance_tests mannwhitneyu_nan df_one_group = Inr [row_nan]"
  by (simp add: groups_one_group tests_one_group_raise tests_one_group_nan sublist_Cons_right)

text \<open>
  C10.  The two lists compared for a population are the percentages of its rows with response
  "yes" and of its rows with response "no"; rows with any other response, null included, are in
  neither list, and removing them from the frame changes neither list.  Each row of the table
  holds the rounded statistic and p-value of the test on exactly these two lists.
\<close>


theorem unlabelled_rows_excluded:
  "responders df pop = map rf_percentage (filter (\<lambda>x. rf_population x = pop \<and> rf_response x = Some ''yes'') df)
   \<and> non_responders df pop = map rf_percentage (filter (\<lambda>x. rf_population x = pop \<and> rf_response x = Some ''no'') df)
   \<and> responders (filter (\<lambda>x. rf_response x = Some ''yes'' \<or> rf_response x = Some ''no'') df) pop = responders df pop
   \<and> non_responders (filter (\<lambda>x. rf_response x = Some ''yes'' \<or> rf_response x = Some ''no'') df) pop = non_responders df pop
   \<and> (\<forall>out r. get_significance_tests mwu df = Inr out \<and> r \<in> set out \<longrightarrow>
         (\<exists>stat p.
            mwu (map rf_percentage (filter (\<lambda>x. rf_population x = sg_population r \<and> rf_response x = Some ''yes'') df))
                (map rf_percentage (filter (\<lambda>x. rf_population x = sg_population r \<and> rf_response x = Some ''no'') df))
              = Inr (stat, p)
            \<and> u_statistic r = f64_round 2 stat \<and> p_value r = f64_round 4 p
            \<and> significant r = f64_less p (1 / 20)))"
proof -
  have "\<exists>stat p.
            mwu (map rf_percentage (filter (\<lambda>x. rf_population x = sg_population r \<and> rf_response x = Some ''yes'') df))
                (map rf_percentage (filter (\<lambda>x. rf_population x = sg_population r \<and> rf_response x = Some ''no'') df))
              = Inr (stat, p)
            \<and> u_statistic r = f64_round 2 stat \<and> p_value r = f64_round 4 p
            \<and> significant r = f64_less p (1 / 20)"
    if h: "get_significance_tests mwu df = Inr out" "r \<in> set out" for out r
  proof -
    from significance_row[OF h] obtain sp where
      sp: "mwu (responders df (sg_population r)) (non_responders df (sg_population r)) = Inr sp"
      and r: "r = make_row (sg_population r) sp"
      by blast
    obtain stat p where pair: "sp = (stat, p)" by (cases sp)
    have "u_statistic r = f64_round 2 stat" "p_value r = f64_round 4 p" "significant r = f64_less p (1 / 20)"
      using r pair
      by (metis make_row_def select_convs(2) fst_conv, metis make_row_def select_convs(3) snd_conv,
          metis make_row_def select_convs(4) snd_conv)
    then show ?thesis using sp pair unfolding groups_as_one_filter by blast
  qed
  then show ?thesis
    using groups_as_one_filter[of df pop] groups_ignore_unlabelled[of df pop] by blast
qed

text \<open>The theorem on the separated example with one more row of null response.\<close>

theorem unlabelled_rows_excluded_witness:
  "get_significance_tests mannwhitneyu df_with_null = Inr [row_separated] \<and> row_separated \<in> set [row_separated]
   \<and> (\<exists>stat p.
        mannwhitneyu
          (map rf_percentage (filter (\<lambda>x. rf_population x = sg_population row_separated \<and> rf_response x = Some ''yes'') df_with_null))
          (map rf_percentage (filter (\<lambda>x. rf_population x = sg_population row_separated \<and> rf_response x = Some ''no'') df_with_null))
          = Inr (stat, p)
        \<and> u_statistic row_separated = f64_round 2 stat \<and> p_value row_separated = f64_round 4 p
        \<and> significant row_separated = f64_less p (1 / 20))"
proof -
  have h1: "get_significance_tests mannwhitneyu df_with_null = Inr [row_separated]"
    by (rule tests_with_null)
  have h2: "row_separated \<in> set [row_separated]" by simp
  from unlabelled_rows_excluded[of df_with_null "''b_cell''" mannwhitneyu] h1 h2
  show ?thesis by blast
qed

section \<open>Claims about loading\<close>

text \<open>
  C5 (amended).  \<open>load_csv\<close> does not check whether the store holds data.  When the file
  shares a project, subject or sample id with the store, the load fails with an integrity
  error and the store is the one before the call; in particular a non-empty file that was
  loaded is rejected when loaded again.  When every id of the file is new to the store, and
  rows of the file with the same subject id (sample id) carry the same subject (sample)
  columns, the load succeeds also on a store that holds data, and appends the projects,
  subjects and samples of the file.  The start of main.py never loads into an existing
  database file.
\<close>

theorem load_rejects_known_ids:
  "((\<exists>r\<in>set df. csv_project r \<in> set (map p_id (projects d))
             \<or> csv_subject r \<in> set (map sub_id (subjects d))
             \<or> csv_sample r \<in> set (map s_id (samples d)))
      \<longrightarrow> (\<exists>msg. load_csv d df = (Inl (IntegrityError msg), d)))
   \<and> (load_csv d df = (Inr (), d1) \<and> df \<noteq> []
      \<longrightarrow> (\<exists>msg. load_csv d1 df = (Inl (IntegrityError msg), d1)))
   \<and> ((\<forall>r\<in>set df. \<forall>r'\<in>set df. csv_subject r = csv_subject r' \<longrightarrow> subject_of r = subject_of r')
        \<and> (\<forall>r\<in>set df. \<forall>r'\<in>set df. csv_sample r = csv_sample r' \<longrightarrow> sample_of r = sample_of r')
        \<and> csv_project ` set df \<inter> set (map p_id (projects d)) = {}
        \<and> csv_subject ` set df \<inter> set (map sub_id (subjects d)) = {}
        \<and> csv_sample ` set df \<inter> set (map s_id (samples d)) = {}
      \<longrightarrow> (\<exists>d'. load_csv d df = (Inr (), d')
             \<and> projects d' = projects d @ new_projects df
             \<and> subjects d' = subjects d @ new_subjects df
             \<and> samples d' = samples d @ new_samples df))
   \<and> main_init (Some d) df = (Inr (), Some d)"
proof -
  have a: "(\<exists>r\<in>set df. csv_project r \<in> set (map p_id (projects d))
             \<or> csv_subject r \<in> set (map sub_id (subjects d))
             \<or> csv_sample r \<in> set (map s_id (samples d)))
      \<longrightarrow> (\<exists>msg. load_csv d df = (Inl (IntegrityError msg), d))"
    using load_rejects_aux[of df d] by blast
  have b: "load_csv d df = (Inr (), d1) \<and> df \<noteq> []
      \<longrightarrow> (\<exists>msg. load_csv d1 df = (Inl (IntegrityError msg), d1))"
    using load_twice_aux[of d df d1] by blast
  have c: "(\<forall>r\<in>set df. \<forall>r'\<in>set df. csv_subject r = csv_subject r' \<longrightarrow> subject_of r = subject_of r')
        \<and> (\<forall>r\<in>set df. \<forall>r'\<in>set df. csv_sample r = csv_sample r' \<longrightarrow> sample_of r = sample_of r')
        \<and> csv_project ` set df \<inter> set (map p_id (projects d)) = {}
        \<and> csv_subject ` set df \<inter> set (map sub_id (subjects d)) = {}
        \<and> csv_sample ` set df \<inter> set (map s_id (samples d)) = {}
      \<longrightarrow> (\<exists>d'. load_csv d df = (Inr (), d')
             \<and> projects d' = projects d @ new_projects df
             \<and> subjects d' = subjects d @ new_subjects df
             \<and> samples d' = samples d @ new_samples df)"
    using load_appends_aux[of df d] by blast
  have e: "main_init (Some d) df = (Inr (), Some d)" by (simp add: main_init_def)
  from a b c e show ?thesis by blast
qed

text \<open>The theorem on the one-row file, loaded into the empty store and again, and on a file
  of another project loaded into the store that holds the first.\<close>

theorem load_rejects_known_ids_witness:
  "csv_row1 \<in> set [csv_row1] \<and> csv_project csv_row1 \<in> set (map p_id (projects db_one))
   \<and> (\<exists>msg. load_csv db_one [csv_row1] = (Inl (IntegrityError msg), db_one))
   \<and> load_csv init_db [csv_row1] = (Inr (), db_one) \<and> [csv_row1] \<noteq> []
   \<and> csv_project csv_row3 \<notin> set (map p_id (projects db_one))
   \<and> csv_subject csv_row3 \<notin> set (map sub_id (subjects db_one))
   \<and> csv_sample csv_row3 \<notin> set (map s_id (samples db_one))
   \<and> (\<exists>d'. load_csv db_one [csv_row3] = (Inr (), d')
         \<and> projects d' = projects db_one @ new_projects [csv_row3]
         \<and> subjects d' = subjects db_one @ new_subjects [csv_row3]
         \<and> samples d' = samples db_one @ new_samples [csv_row3])
   \<and> main_init (Some db_one) [csv_row1] = (Inr (), Some db_one)"
proof -
  have h1: "\<exists>r\<in>set [csv_row1]. csv_project r \<in> set (map p_id (projects db_one))
             \<or> csv_subject r \<in> set (map sub_id (subjects db_one))
             \<or> csv_sample r \<in> set (map s_id (samples db_one))"
    by (simp add: db_one_def csv_row1_def)
  have h2: "csv_project csv_row1 \<in> set (map p_id (projects db_one))"
    by (simp add: db_one_def csv_row1_def)
  have n: "csv_project csv_row3 \<notin> set (map p_id (projects db_one))"
    "csv_subject csv_row3 \<notin> set (map sub_id (subjects db_one))"
    "csv_sample csv_row3 \<notin> set (map s_id (samples db_one))"
    by (simp_all add: db_one_def csv_row1_def csv_row3_def subject_of_def sample_of_def)
  have h3: "(\<forall>r\<in>set [csv_row3]. \<forall>r'\<in>set [csv_row3]. csv_subject r = csv_subject r' \<longrightarrow> subject_of r = subject_of r')
        \<and> (\<forall>r\<in>set [csv_row3]. \<forall>r'\<in>set [csv_row3]. csv_sample r = csv_sample r' \<longrightarrow> sample_of r = sample_of r')
        \<and> csv_project ` set [csv_row3] \<inter> set (map p_id (projects db_one)) = {}
        \<and> csv_subject ` set [csv_row3] \<inter> set (map sub_id (subjects db_one)) = {}
        \<and> csv_sample ` set [csv_row3] \<inter> set (map s_id (samples db_one)) = {}"
    using n by simp
  have r1: "\<exists>msg. load_csv db_one [csv_row1] = (Inl (IntegrityError msg), db_one)"
    using load_rejects_known_ids[of "[csv_row1]" db_one db_one] h1 by blast
  have r3: "\<exists>d'. load_csv db_one [csv_row3] = (Inr (), d')
         \<and> projects d' = projects db_one @ new_projects [csv_row3]
         \<and> subjects d' = subjects db_one @ new_subjects [csv_row3]
         \<and> samples d' = samples db_one @ new_samples [csv_row3]"
    using load_rejects_known_ids[of "[csv_row3]" db_one db_one] h3 by blast
  have r4: "main_init (Some db_one) [csv_row1] = (Inr (), Some db_one)"
    using load_rejects_known_ids[of "[csv_row1]" db_one db_one] by blast
  from h2 n r1 r3 r4 load_one show ?thesis by simp
qed

text \<open>
  C5 as stated fails: the store holds the first file, and a file with other ids is loaded
  into it; every table grows.
\<close>

theorem load_populated_store_counterexample:
  "load_csv init_db [csv_row1] = (Inr (), db_one)
   \<and> length (projects db_one) = 1 \<and> length (subjects db_one) = 1
   \<and> length (samples db_one) = 1 \<and> length (cell_counts db_one) = 5
   \<and> fst (load_csv db_one [csv_row3]) = Inr ()
   \<and> length (projects (snd (load_csv db_one [csv_row3]))) = 2
   \<and> length (subjects (snd (load_csv db_one [csv_row3]))) = 2
   \<and> length (samples (snd (load_csv db_one [csv_row3]))) = 2
   \<and> length (cell_counts (snd (load_csv db_one [csv_row3]))) = 10"
  using load_one load_other by (simp add: db_one_def)

text \<open>
  C6 (amended).  \<open>load_csv\<close> removes duplicates of the whole tuple of columns of an entity,
  not of its id.  When all rows with the same subject id carry the same subject columns, all
  rows with the same sample id the same sample columns, and the ids are new to the store, the
  load succeeds and each project, subject and sample id of the file is in its table exactly
  once.  When two rows give one subject id (or sample id) different columns, the load fails
  with an integrity error and inserts nothing.
\<close>

theorem load_inserts_each_id_once:
  "((\<forall>r\<in>set df. \<forall>r'\<in>set df. csv_subject r = csv_subject r' \<longrightarrow> subject_of r = subject_of r')
     \<and> (\<forall>r\<in>set df. \<forall>r'\<in>set df. csv_sample r = csv_sample r' \<longrightarrow> sample_of r = sample_of r')
     \<and> csv_project ` set df \<inter> set (map p_id (projects d)) = {}
     \<and> csv_subject ` set df \<inter> set (map sub_id (subjects d)) = {}
     \<and> csv_sample ` set df \<inter> set (map s_id (samples d)) = {}
    \<longrightarrow> (\<exists>d'. load_csv d df = (Inr (), d')
           \<and> (\<forall>r\<in>set df. length (filter (\<lambda>p. p_id p = csv_project r) (projects d')) = 1
                 \<and> length (filter (\<lambda>s. sub_id s = csv_subject r) (subjects d')) = 1
                 \<and> length (filter (\<lambda>s. s_id s = csv_sample r) (samples d')) = 1)))
   \<and> ((\<exists>r\<in>set df. \<exists>r'\<in>set df. csv_subject r = csv_subject r' \<and> subject_of r \<noteq> subject_of r')
        \<or> (\<exists>r\<in>set df. \<exists>r'\<in>set df. csv_sample r = csv_sample r' \<and> sample_of r \<noteq> sample_of r')
    \<longrightarrow> (\<exists>msg. load_csv d df = (Inl (IntegrityError msg), d)))"
  using load_once_aux[of df d] load_conflict_aux[of df d] by blast

text \<open>The theorem on two samples of one subject, and on one subject with two ages.\<close>

theorem load_inserts_each_id_once_witness:
  "subject_of csv_row1 = subject_of csv_row2 \<and> csv_sample csv_row1 \<noteq> csv_sample csv_row2
   \<and> (\<exists>d'. load_csv init_db [csv_row1, csv_row2] = (Inr (), d')
         \<and> length (filter (\<lambda>p. p_id p = ''prj1'') (projects d')) = 1
         \<and> length (filter (\<lambda>s. sub_id s = ''sbj1'') (subjects d')) = 1
         \<and> length (filter (\<lambda>s. s_id s = ''sample1'') (samples d')) = 1
         \<and> length (filter (\<lambda>s. s_id s = ''sample2'') (samples d')) = 1)
   \<and> csv_subject csv_row1 = csv_subject csv_row4 \<and> subject_of csv_row1 \<noteq> subject_of csv_row4
   \<and> (\<exists>msg. load_csv init_db [csv_row1, csv_row4] = (Inl (IntegrityError msg), init_db))"
proof -
  have e: "subject_of csv_row1 = subject_of csv_row2" "csv_sample csv_row1 \<noteq> csv_sample csv_row2"
    "csv_subject csv_row1 = csv_subject csv_row4" "subject_of csv_row1 \<noteq> subject_of csv_row4"
    by (simp_all add: subject_of_def csv_row1_def csv_row2_def csv_row4_def)
  have h1: "\<forall>r\<in>set [csv_row1, csv_row2]. \<forall>r'\<in>set [csv_row1, csv_row2].
              csv_subject r = csv_subject r' \<longrightarrow> subject_of r = subject_of r'"
    using e by simp
  have h2: "\<forall>r\<in>set [csv_row1, csv_row2]. \<forall>r'\<in>set [csv_row1, csv_row2].
              csv_sample r = csv_sample r' \<longrightarrow> sample_of r = sample_of r'"
    using e by auto
  have h3: "csv_project ` set [csv_row1, csv_row2] \<inter> set (map p_id (projects init_db)) = {}"
    "csv_subject ` set [csv_row1, csv_row2] \<inter> set (map sub_id (subjects init_db)) = {}"
    "csv_sample ` set [csv_row1, csv_row2] \<inter> set (map s_id (samples init_db)) = {}"
    by (simp_all add: init_db_def)
  have h4: "(\<exists>r\<in>set [csv_row1, csv_row4]. \<exists>r'\<in>set [csv_row1, csv_row4].
               csv_subject r = csv_subject r' \<and> subject_of r \<noteq> subject_of r')
            \<or> (\<exists>r\<in>set [csv_row1, csv_row4]. \<exists>r'\<in>set [csv_row1, csv_row4].
               csv_sample r = csv_sample r' \<and> sample_of r \<noteq> sample_of r')"
    using e by auto
  have v: "csv_project csv_row1 = ''prj1''" "csv_subject csv_row1 = ''sbj1''"
    "csv_sample csv_row1 = ''sample1''" "csv_sample csv_row2 = ''sample2''"
    by (simp_all add: csv_row1_def csv_row2_def)
  from load_inserts_each_id_once[of "[csv_row1, csv_row2]" init_db] h1 h2 h3
  obtain d' where d': "load_csv init_db [csv_row1, csv_row2] = (Inr (), d')"
    "\<forall>r\<in>set [csv_row1, csv_row2]. length (filter (\<lambda>p. p_id p = csv_project r) (projects d')) = 1
                 \<and> length (filter (\<lambda>s. sub_id s = csv_subject r) (subjects d')) = 1
                 \<and> length (filter (\<lambda>s. s_id s = csv_sample r) (samples d')) = 1"
    by blast
  from d'(2) v have
    "length (filter (\<lambda>p. p_id p = ''prj1'') (projects d')) = 1
         \<and> length (filter (\<lambda>s. sub_id s = ''sbj1'') (subjects d')) = 1
         \<and> length (filter (\<lambda>s. s_id s = ''sample1'') (samples d')) = 1
         \<and> length (filter (\<lambda>s. s_id s = ''sample2'') (samples d')) = 1"
    by (metis list.set_intros(1) list.set_intros(2))
  with d'(1) have first: "\<exists>d'. load_csv init_db [csv_row1, csv_row2] = (Inr (), d')
         \<and> length (filter (\<lambda>p. p_id p = ''prj1'') (projects d')) = 1
         \<and> length (filter (\<lambda>s. sub_id s = ''sbj1'') (subjects d')) = 1
         \<and> length (filter (\<lambda>s. s_id s = ''sample1'') (samples d')) = 1
         \<and> length (filter (\<lambda>s. s_id s = ''sample2'') (samples d')) = 1"
    by blast
  from load_inserts_each_id_once[of "[csv_row1, csv_row4]" init_db] h4
  have second: "\<exists>msg. load_csv init_db [csv_row1, csv_row4] = (Inl (IntegrityError msg), init_db)"
    by blast
  from e first second show ?thesis by blast
qed

text \<open>
  C6 as stated fails: subject sbj1 appears in two rows with ages 57 and 58; the load is
  rejected and the subject is not inserted.
\<close>

theorem load_conflicting_subject_counterexample:
  "csv_subject csv_row1 = ''sbj1'' \<and> csv_subject csv_row4 = ''sbj1''
   \<and> load_csv init_db [csv_row1, csv_row4]
       = (Inl (IntegrityError ''UNIQUE constraint failed: subjects.id''), init_db)
   \<and> length (filter (\<lambda>s. sub_id s = ''sbj1'') (subjects (snd (load_csv init_db [csv_row1, csv_row4])))) = 0"
  using load_conflict by (simp add: csv_row1_def csv_row2_def csv_row4_def init_db_def)

text \<open>
  C7 (amended).  When the rows of the file have pairwise distinct sample ids, and the store
  before the load has at most one cell count per (sample, population) and a sample for every
  cell count, a load that completes leaves a store with both properties.
\<close>

theorem load_keeps_cell_counts_unique:
  assumes "cell_counts_unique d"
    and "\<forall>cc\<in>set (cell_counts d). cc_sample_id cc \<in> set (map s_id (samples d))"
    and "distinct (map csv_sample df)"
    and "load_csv d df = (Inr (), d')"
  shows "cell_counts_unique d' \<and> (\<forall>cc\<in>set (cell_counts d'). cc_sample_id cc \<in> set (map s_id (samples d')))"
  using assms by (rule load_keeps_unique_aux)

text \<open>The theorem on the file with two samples of one subject, loaded into the empty store.\<close>

theorem load_keeps_cell_counts_unique_witness:
  "cell_counts_unique init_db \<and> cell_counts init_db = []
   \<and> distinct (map csv_sample [csv_row1, csv_row2])
   \<and> load_csv init_db [csv_row1, csv_row2] = (Inr (), db_two)
   \<and> cell_counts_unique db_two
   \<and> cc_sample_id ` set (cell_counts db_two) \<subseteq> set (map s_id (samples db_two))"
proof -
  have h1: "cell_counts_unique init_db" by (simp add: cell_counts_unique_def init_db_def)
  have h2: "\<forall>cc\<in>set (cell_counts init_db). cc_sample_id cc \<in> set (map s_id (samples init_db))"
    by (simp add: init_db_def)
  have h3: "distinct (map csv_sample [csv_row1, csv_row2])"
    by (simp add: csv_row1_def csv_row2_def)
  have e: "cell_counts init_db = []" by (simp add: init_db_def)
  from load_keeps_cell_counts_unique[OF h1 h2 h3 load_two]
  have "cell_counts_unique db_two"
    "cc_sample_id ` set (cell_counts db_two) \<subseteq> set (map s_id (samples db_two))"
    by blast+
  with h1 h3 e load_two show ?thesis by blast
qed

text \<open>
  C7 as stated fails: a file with the same row twice is loaded, the sample is inserted once
  and each of its populations twice.
\<close>

theorem load_repeated_sample_counterexample:
  "fst (load_csv init_db [csv_row1, csv_row1]) = Inr ()
   \<and> length (filter (\<lambda>c. cc_sample_id c = ''sample1'' \<and> cc_population c = ''b_cell'')
              (cell_counts (snd (load_csv init_db [csv_row1, csv_row1])))) = 2
   \<and> \<not> cell_counts_unique (snd (load_csv init_db [csv_row1, csv_row1]))"
  unfolding cell_counts_unique_def keys_repeated_sample using load_twice_row by simp

section \<open>Claims about the frequency tables\<close>

text \<open>
  C4 (amended).  With non-negative counts, for every sample whose total count is 0 the
  functions \<open>get_frequency_table\<close> and \<open>get_responder_frequencies\<close> return (they have no
  failing branch) and the percentage of each row of that sample is NaN, not a number.  These
  rows are not excluded before the statistical test: the NaN of a row with response "yes"
  ("no") is in the list of responders (non-responders) that \<open>get_significance_tests\<close> passes
  to the test for the population of the row.
\<close>

theorem zero_total_gives_nan_kept:
  assumes "\<forall>cc\<in>set (cell_counts d). 0 \<le> cc_count cc"
  shows "(\<forall>r\<in>set (get_frequency_table d). ft_total_count r = 0 \<longrightarrow> ft_percentage r = NaN)
     \<and> (\<forall>r\<in>set (get_responder_frequencies d).
           (rf_sample_id r, 0) \<in> set (group_sum rq_sample_id rq_count (responder_query d)) \<longrightarrow>
             rf_percentage r = NaN
             \<and> (rf_response r = Some ''yes'' \<longrightarrow>
                  NaN \<in> set (responders (get_responder_frequencies d) (rf_population r)))
             \<and> (rf_response r = Some ''no'' \<longrightarrow>
                  NaN \<in> set (non_responders (get_responder_frequencies d) (rf_population r))))"
proof -
  have a: "\<forall>r\<in>set (get_frequency_table d). ft_total_count r = 0 \<longrightarrow> ft_percentage r = NaN"
    using frequency_zero_total_aux[OF assms] by blast
  have b: "rf_percentage r = NaN
             \<and> (rf_response r = Some ''yes'' \<longrightarrow>
                  NaN \<in> set (responders (get_responder_frequencies d) (rf_population r)))
             \<and> (rf_response r = Some ''no'' \<longrightarrow>
                  NaN \<in> set (non_responders (get_responder_frequencies d) (rf_population r)))"
    if r: "r \<in> set (get_responder_frequencies d)"
      and z: "(rf_sample_id r, 0) \<in> set (group_sum rq_sample_id rq_count (responder_query d))" for r
  proof -
    have n: "rf_percentage r = NaN" using responder_zero_total_aux[OF assms r z] .
    show ?thesis using n in_responders[OF r] by metis
  qed
  from a b show ?thesis by blast
qed

text \<open>
  C2.  For every store whose subject and sample ids are unique and whose cell counts and
  samples refer to existing samples and subjects, \<open>get_frequency_table\<close> returns exactly one
  row for each row of \<open>cell_counts\<close>, with the metadata of its sample and subject, the
  population and the count; \<open>total_count\<close> is the sum of the counts stored for the sample;
  where it is not 0 the percentage is \<open>100 * count / total_count\<close> rounded to 2 decimals; the
  rows are in ascending order of the pair (sample id, population), compared lexicographically.
\<close>

theorem frequency_table_correct:
  assumes "primary_keys d" and "referential_integrity d"
  shows "mset (get_frequency_table d) = mset (map (frequency_row d) (cell_counts d))
     \<and> sorted (map (\<lambda>r. (ft_sample r, ft_population r)) (get_frequency_table d))
     \<and> (\<forall>r\<in>set (get_frequency_table d).
           ft_total_count r = sample_total d (ft_sample r)
           \<and> (ft_total_count r \<noteq> 0 \<longrightarrow>
                ft_percentage r = Fin (round_to 2 (100 * of_int (ft_count r) / of_int (ft_total_count r)))))"
proof -
  note eq = frequency_table_lookup[OF assms]
  have a: "mset (get_frequency_table d) = mset (map (frequency_row d) (cell_counts d))"
    unfolding eq by simp
  have b: "sorted (map (\<lambda>r. (ft_sample r, ft_population r)) (get_frequency_table d))"
    unfolding eq by (rule sorted_sort_key)
  have c: "ft_total_count r = sample_total d (ft_sample r)
           \<and> (ft_total_count r \<noteq> 0 \<longrightarrow>
                ft_percentage r = Fin (round_to 2 (100 * of_int (ft_count r) / of_int (ft_total_count r))))"
    if "r \<in> set (get_frequency_table d)" for r
  proof -
    from that obtain cc where "r = frequency_row d cc" unfolding eq by auto
    then show ?thesis by (simp add: frequency_row_def percentage_of_nonzero_total)
  qed
  from a b c show ?thesis by blast
qed

text \<open>The theorem on the store holding one sample with counts 10, 20, 30, 25, 15.\<close>

theorem frequency_table_correct_witness:
  "primary_keys db_one \<and> referential_integrity db_one
   \<and> mset (get_frequency_table db_one) = mset (map (frequency_row db_one) (cell_counts db_one))
   \<and> sorted (map (\<lambda>r. (ft_sample r, ft_population r)) (get_frequency_table db_one))
   \<and> hd (get_frequency_table db_one) \<in> set (get_frequency_table db_one)
   \<and> ft_total_count (hd (get_frequency_table db_one)) = sample_total db_one ''sample1''
   \<and> ft_total_count (hd (get_frequency_table db_one)) = 100
   \<and> ft_percentage (hd (get_frequency_table db_one)) = Fin 10"
proof -
  have m: "hd (get_frequency_table db_one) \<in> set (get_frequency_table db_one)"
    by (simp add: frequency_table_one)
  have s: "ft_sample (hd (get_frequency_table db_one)) = ''sample1''"
    "ft_total_count (hd (get_frequency_table db_one)) = 100"
    "ft_percentage (hd (get_frequency_table db_one)) = Fin 10"
    by (simp_all add: frequency_table_one)
  from frequency_table_correct[OF pk_one] m s pk_one show ?thesis by metis
qed

text \<open>The theorem on the store with two samples of zero counts.\<close>

theorem zero_total_gives_nan_kept_witness:
  "(\<exists>r\<in>set (get_frequency_table db_zero). ft_total_count r = 0 \<and> ft_percentage r = NaN)
   \<and> (\<exists>r\<in>set (get_responder_frequencies db_zero).
         (rf_sample_id r, 0) \<in> set (group_sum rq_sample_id rq_count (responder_query db_zero))
         \<and> rf_response r = Some ''yes'' \<and> rf_percentage r = NaN
         \<and> NaN \<in> set (responders (get_responder_frequencies db_zero) (rf_population r)))
   \<and> (\<exists>r\<in>set (get_responder_frequencies db_zero).
         (rf_sample_id r, 0) \<in> set (group_sum rq_sample_id rq_count (responder_query db_zero))
         \<and> rf_response r = Some ''no'' \<and> rf_percentage r = NaN
         \<and> NaN \<in> set (non_responders (get_responder_frequencies db_zero) (rf_population r)))"
proof -
  note t = zero_total_gives_nan_kept[OF nonneg_zero]
  have a: "\<exists>r\<in>set (get_frequency_table db_zero). ft_total_count r = 0 \<and> ft_percentage r = NaN"
    using t frequency_row_zero by (intro bexI[OF _ frequency_row_zero]) simp
  define y where "y = \<lparr>rf_sample_id = ''sample0'', rf_population = ''b_cell'', rf_percentage = NaN,
                        rf_response = Some ''yes''\<rparr>"
  define n where "n = \<lparr>rf_sample_id = ''sample6'', rf_population = ''b_cell'', rf_percentage = NaN,
                        rf_response = Some ''no''\<rparr>"
  have y: "y \<in> set (get_responder_frequencies db_zero)"
    "(rf_sample_id y, 0) \<in> set (group_sum rq_sample_id rq_count (responder_query db_zero))"
    "rf_response y = Some ''yes''"
    using rows_zero(1) totals_zero(1) by (simp_all add: y_def)
  have n: "n \<in> set (get_responder_frequencies db_zero)"
    "(rf_sample_id n, 0) \<in> set (group_sum rq_sample_id rq_count (responder_query db_zero))"
    "rf_response n = Some ''no''"
    using rows_zero(2) totals_zero(2) by (simp_all add: n_def)
  from t y have b: "rf_percentage y = NaN
      \<and> NaN \<in> set (responders (get_responder_frequencies db_zero) (rf_population y))"
    by blast
  from t n have c: "rf_percentage n = NaN
      \<and> NaN \<in> set (non_responders (get_responder_frequencies db_zero) (rf_population n))"
    by blast
  from a b c y n show ?thesis by blast
qed

text \<open>
  C4 as stated fails in its last part: sample0 has total count 0, and the lists compared for
  b_cell contain its NaN.
\<close>

theorem zero_total_rows_not_excluded_counterexample:
  "(''sample0'', 0) \<in> set (group_sum rq_sample_id rq_count (responder_query db_zero))
   \<and> responders (get_responder_frequencies db_zero) ''b_cell'' = [NaN]
   \<and> non_responders (get_responder_frequencies db_zero) ''b_cell'' = [Fin 10, NaN]"
  using totals_zero(1) groups_zero by simp

section \<open>Claims about the cohort summaries\<close>



section \<open>Claims about the subject counts\<close>



end
